theory Spec2Isabelle
  imports Main "HOL-Library.Sublist" "HOL-Library.List_Lexorder" "HOL-Library.Char_ord"
    "HOL-Library.AList"
begin

section \<open>The Go library functions the handlers call\<close>

text \<open>
  Go strings and byte slices are sequences of bytes: \<^typ>\<open>string\<close>, a list of 8-bit
  \<^typ>\<open>char\<close>. A byte is read as a number with \<^const>\<open>of_char\<close> and written with
  \<^const>\<open>char_of\<close>.
\<close>

subsection \<open>strings.Split\<close>

text \<open>\<^verbatim>\<open>strings.Index(s, sep)\<close>: the position of the first occurrence of \<open>sep\<close>.\<close>

fun strings_Index :: "string \<Rightarrow> string \<Rightarrow> nat option" where
  "strings_Index [] sep = (if sep = [] then Some 0 else None)"
| "strings_Index (c # cs) sep =
     (if prefix sep (c # cs) then Some 0 else map_option Suc (strings_Index cs sep))"

text \<open>
  \<^verbatim>\<open>strings.Split(s, sep)\<close> for a non-empty separator (\<^verbatim>\<open>genSplit(s, sep, 0, -1)\<close>):
  cut at the first occurrence, continue behind it. The handlers only split at
  \<^verbatim>\<open>"Bearer "\<close> and \<^verbatim>\<open>","\<close>; the empty separator (Go explodes the string into
  UTF-8 sequences) is not needed and returns the string whole here.
\<close>

function strings_Split :: "string \<Rightarrow> string \<Rightarrow> string list" where
  "strings_Split s sep =
     (case strings_Index s sep of
        None \<Rightarrow> [s]
      | Some m \<Rightarrow>
          (if sep = [] then [s]
           else take m s # strings_Split (drop (m + length sep) s) sep))"
  by pat_completeness auto
termination
proof (relation "measure (\<lambda>(s, sep). length s)")
  show "wf (measure (\<lambda>(s, sep). length s))" by simp
next
  fix s sep :: string and m :: nat
  assume "strings_Index s sep = Some m" and "sep \<noteq> []"
  then have "s \<noteq> []" by (cases s) auto
  with \<open>sep \<noteq> []\<close>
  show "((drop (m + length sep) s, sep), (s, sep)) \<in> measure (\<lambda>(s, sep). length s)"
    by simp
qed

subsection \<open>url.PathUnescape\<close>

definition ishex :: "char \<Rightarrow> bool" where
  "ishex c = (let n = (of_char c :: nat) in
     (48 \<le> n \<and> n \<le> 57) \<or> (97 \<le> n \<and> n \<le> 102) \<or> (65 \<le> n \<and> n \<le> 70))"

definition unhex :: "char \<Rightarrow> nat" where
  "unhex c = (let n = (of_char c :: nat) in
     if 48 \<le> n \<and> n \<le> 57 then n - 48
     else if 97 \<le> n \<and> n \<le> 102 then n - 97 + 10
     else if 65 \<le> n \<and> n \<le> 70 then n - 65 + 10
     else 0)"

text \<open>
  \<^verbatim>\<open>url.PathUnescape\<close> (\<^verbatim>\<open>unescape(s, encodePathSegment)\<close>): every \<^verbatim>\<open>%XY\<close> becomes
  the byte \<open>0xXY\<close>; a \<^verbatim>\<open>%\<close> not followed by two hex digits is an \<^verbatim>\<open>EscapeError\<close>
  (\<open>None\<close>); a \<^verbatim>\<open>+\<close> stays. Go validates in a first pass and decodes in a second;
  the result is the same in one pass.
\<close>

fun url_PathUnescape :: "string \<Rightarrow> string option" where
  "url_PathUnescape [] = Some []"
| "url_PathUnescape (c # cs) =
     (if c = CHR ''%'' then
        (case cs of
           h1 # h2 # rest \<Rightarrow>
             (if ishex h1 \<and> ishex h2
              then map_option ((#) (char_of (unhex h1 * 16 + unhex h2))) (url_PathUnescape rest)
              else None)
         | _ \<Rightarrow> None)
      else map_option ((#) c) (url_PathUnescape cs))"

subsection \<open>unicode/utf8 and unicode/utf16\<close>

definition RuneError :: nat where
  "RuneError = 0xFFFD"

text \<open>
  The table \<^verbatim>\<open>first\<close> with \<^verbatim>\<open>acceptRanges\<close>, for a lead byte from \<open>0x80\<close> on: the
  length of the sequence and the range accepted for its second byte; \<open>None\<close> for the
  bytes that start no sequence.
\<close>

definition utf8_first :: "nat \<Rightarrow> (nat \<times> nat \<times> nat) option" where
  "utf8_first p0 =
     (if 0xC2 \<le> p0 \<and> p0 \<le> 0xDF then Some (2, 0x80, 0xBF)
      else if p0 = 0xE0 then Some (3, 0xA0, 0xBF)
      else if p0 = 0xED then Some (3, 0x80, 0x9F)
      else if 0xE1 \<le> p0 \<and> p0 \<le> 0xEF then Some (3, 0x80, 0xBF)
      else if p0 = 0xF0 then Some (4, 0x90, 0xBF)
      else if 0xF1 \<le> p0 \<and> p0 \<le> 0xF3 then Some (4, 0x80, 0xBF)
      else if p0 = 0xF4 then Some (4, 0x80, 0x8F)
      else None)"

text \<open>
  \<^verbatim>\<open>utf8.DecodeRune\<close>: the rune at the head of the bytes and its width; an invalid
  head is \<open>(RuneError, 1)\<close>. The masks and shifts of the source are written as
  \<open>mod\<close> and multiplication (the bit fields do not overlap).
\<close>

definition utf8_DecodeRune :: "string \<Rightarrow> nat \<times> nat" where
  "utf8_DecodeRune p =
     (if length p < 1 then (RuneError, 0)
      else let p0 = (of_char (p ! 0) :: nat) in
        if p0 < 0x80 then (p0, 1)
        else case utf8_first p0 of
          None \<Rightarrow> (RuneError, 1)
        | Some (sz, lo, hi) \<Rightarrow>
            if length p < sz then (RuneError, 1)
            else let b1 = (of_char (p ! 1) :: nat) in
              if b1 < lo \<or> hi < b1 then (RuneError, 1)
              else if sz \<le> 2 then ((p0 mod 32) * 64 + b1 mod 64, 2)
              else let b2 = (of_char (p ! 2) :: nat) in
                if b2 < 0x80 \<or> 0xBF < b2 then (RuneError, 1)
                else if sz \<le> 3 then ((p0 mod 16) * 4096 + (b1 mod 64) * 64 + b2 mod 64, 3)
                else let b3 = (of_char (p ! 3) :: nat) in
                  if b3 < 0x80 \<or> 0xBF < b3 then (RuneError, 1)
                  else ((p0 mod 8) * 262144 + (b1 mod 64) * 4096 + (b2 mod 64) * 64
                          + b3 mod 64, 4))"

text \<open>\<^verbatim>\<open>utf8.EncodeRune\<close> / \<^verbatim>\<open>utf8.AppendRune\<close>: the bytes of a rune.\<close>

definition encode3 :: "nat \<Rightarrow> string" where
  "encode3 r = [char_of (0xE0 + r div 4096), char_of (0x80 + (r div 64) mod 64),
                char_of (0x80 + r mod 64)]"

definition utf8_EncodeRune :: "nat \<Rightarrow> string" where
  "utf8_EncodeRune r =
     (if r \<le> 0x7F then [char_of r]
      else if r \<le> 0x7FF then [char_of (0xC0 + r div 64), char_of (0x80 + r mod 64)]
      else if r > 0x10FFFF \<or> (0xD800 \<le> r \<and> r \<le> 0xDFFF) then encode3 RuneError
      else if r \<le> 0xFFFF then encode3 r
      else [char_of (0xF0 + r div 262144), char_of (0x80 + (r div 4096) mod 64),
            char_of (0x80 + (r div 64) mod 64), char_of (0x80 + r mod 64)])"

text \<open>\<^verbatim>\<open>utf8.ValidString\<close>: no head of the string decodes to \<open>(RuneError, 1)\<close>.\<close>

fun utf8_ValidString :: "string \<Rightarrow> bool" where
  "utf8_ValidString [] = True"
| "utf8_ValidString (c # cs) =
     (case utf8_DecodeRune (c # cs) of
        (r, n) \<Rightarrow>
          \<not> (r = RuneError \<and> n = 1) \<and> utf8_ValidString (drop (n - 1) cs))"

text \<open>
  The well-formed sequences of two, three and four bytes (the rows of the table
  \<^verbatim>\<open>first\<close> read the other way round), used to reason about \<^const>\<open>utf8_DecodeRune\<close>.
\<close>

definition utf8_cont :: "char \<Rightarrow> bool" where
  "utf8_cont c = (0x80 \<le> (of_char c :: nat) \<and> (of_char c :: nat) \<le> 0xBF)"

definition utf8_seq2 :: "char \<Rightarrow> char \<Rightarrow> bool" where
  "utf8_seq2 c0 c1 =
     (0xC2 \<le> (of_char c0 :: nat) \<and> (of_char c0 :: nat) \<le> 0xDF \<and> utf8_cont c1)"

definition utf8_seq3 :: "char \<Rightarrow> char \<Rightarrow> char \<Rightarrow> bool" where
  "utf8_seq3 c0 c1 c2 =
     (0xE0 \<le> (of_char c0 :: nat) \<and> (of_char c0 :: nat) \<le> 0xEF \<and> utf8_cont c1 \<and> utf8_cont c2
      \<and> (if (of_char c0 :: nat) = 0xE0 then 0xA0 \<le> (of_char c1 :: nat)
          else if (of_char c0 :: nat) = 0xED then (of_char c1 :: nat) \<le> 0x9F else True))"

definition utf8_seq4 :: "char \<Rightarrow> char \<Rightarrow> char \<Rightarrow> char \<Rightarrow> bool" where
  "utf8_seq4 c0 c1 c2 c3 =
     (0xF0 \<le> (of_char c0 :: nat) \<and> (of_char c0 :: nat) \<le> 0xF4
      \<and> utf8_cont c1 \<and> utf8_cont c2 \<and> utf8_cont c3
      \<and> (if (of_char c0 :: nat) = 0xF0 then 0x90 \<le> (of_char c1 :: nat)
          else if (of_char c0 :: nat) = 0xF4 then (of_char c1 :: nat) \<le> 0x8F else True))"

definition utf16_IsSurrogate :: "nat \<Rightarrow> bool" where
  "utf16_IsSurrogate r = (0xD800 \<le> r \<and> r < 0xE000)"

text \<open>\<^verbatim>\<open>utf16.DecodeRune\<close>: the code point of a surrogate pair, else U+FFFD.\<close>

definition utf16_DecodeRune :: "nat \<Rightarrow> nat \<Rightarrow> nat" where
  "utf16_DecodeRune r1 r2 =
     (if 0xD800 \<le> r1 \<and> r1 < 0xDC00 \<and> 0xDC00 \<le> r2 \<and> r2 < 0xE000
      then (r1 - 0xD800) * 1024 + (r2 - 0xDC00) + 0x10000
      else RuneError)"

subsection \<open>encoding/json: writing\<close>

abbreviation BSL :: char where "BSL \<equiv> CHR 0x5C"
abbreviation QUO :: char where "QUO \<equiv> CHR 0x22"

definition hex :: "nat \<Rightarrow> char" where
  "hex n = ''0123456789abcdef'' ! n"

text \<open>
  \<^verbatim>\<open>htmlSafeSet\<close>: the ASCII bytes that \<^verbatim>\<open>json.Marshal\<close> writes into a JSON string
  as they are: all from the space on, except the double quote, the ampersand, the angle
  brackets and the backslash.
\<close>

definition htmlSafeSet :: "nat \<Rightarrow> bool" where
  "htmlSafeSet b = (0x20 \<le> b \<and> b < 0x80 \<and> b \<noteq> 0x22 \<and> b \<noteq> 0x26 \<and> b \<noteq> 0x3C
                     \<and> b \<noteq> 0x3E \<and> b \<noteq> 0x5C)"

text \<open>The escape written for an ASCII byte outside \<^const>\<open>htmlSafeSet\<close>.\<close>

definition escapeByte :: "char \<Rightarrow> string" where
  "escapeByte c =
     (if c = BSL \<or> c = QUO then [BSL, c]
      else if c = CHR 0x0A then [BSL, CHR ''n'']
      else if c = CHR 0x0D then [BSL, CHR ''r'']
      else if c = CHR 0x09 then [BSL, CHR ''t'']
      else [BSL, CHR ''u'', CHR ''0'', CHR ''0'',
            hex (of_char c div 16), hex (of_char c mod 16)])"

text \<open>
  \<^verbatim>\<open>encodeState.string\<close> as \<^verbatim>\<open>json.Marshal\<close> calls it, between the quotes: safe
  ASCII as it is, other ASCII escaped, an invalid UTF-8 byte replaced by the escape of U+FFFD, the
  separators U+2028 and U+2029 escaped, every other rune copied. (From Go 1.22 on the
  bytes 8 and 12 are written with the short escapes b and f instead of u0008 and u000c:
  another spelling of the same JSON string.)
\<close>

fun encodeState_string :: "string \<Rightarrow> string" where
  "encodeState_string [] = []"
| "encodeState_string (c # cs) =
     (if (of_char c :: nat) < 0x80 then
        (if htmlSafeSet (of_char c) then [c] else escapeByte c) @ encodeState_string cs
      else case utf8_DecodeRune (c # cs) of
        (r, n) \<Rightarrow>
          if r = RuneError \<and> n = 1 then
            [BSL, CHR ''u'', CHR ''f'', CHR ''f'', CHR ''f'', CHR ''d''] @ encodeState_string cs
          else if r = 0x2028 \<or> r = 0x2029 then
            [BSL, CHR ''u'', CHR ''2'', CHR ''0'', CHR ''2'', hex (r mod 16)]
              @ encodeState_string (drop (n - 1) cs)
          else take n (c # cs) @ encodeState_string (drop (n - 1) cs))"

definition json_string :: "string \<Rightarrow> string" where
  "json_string s = QUO # encodeState_string s @ [QUO]"

text \<open>\<^verbatim>\<open>strconv.AppendInt(b, n, 10)\<close>.\<close>

fun digits10 :: "nat \<Rightarrow> string" where
  "digits10 n = (if n < 10 then [''0123456789'' ! n]
                 else digits10 (n div 10) @ [''0123456789'' ! (n mod 10)])"

definition strconv_Itoa :: "int \<Rightarrow> string" where
  "strconv_Itoa i = (if i < 0 then CHR ''-'' # digits10 (nat (- i)) else digits10 (nat i))"

text \<open>
  The values the handlers put into a \<^verbatim>\<open>map[string]interface{}\<close> they marshal: a string,
  an integer (\<^verbatim>\<open>time.Duration\<close> is an \<^verbatim>\<open>int64\<close> without a marshalling method of its
  own, so it is written as its number), and a \<^verbatim>\<open>json.RawMessage\<close> (JSON text put in as
  it is; the handler passes the compact output of another marshaller).
\<close>

datatype iface = IString string | IInt64 int | IRawMessage string

fun json_value :: "iface \<Rightarrow> string" where
  "json_value (IString s) = json_string s"
| "json_value (IInt64 i) = strconv_Itoa i"
| "json_value (IRawMessage b) = b"

fun join :: "string \<Rightarrow> string list \<Rightarrow> string" where
  "join sep [] = []"
| "join sep [x] = x"
| "join sep (x # y # ys) = x @ sep @ join sep (y # ys)"

text \<open>
  \<^verbatim>\<open>json.Marshal\<close> of a map with string keys, given as the list of its entries: the
  entries are written in the order of their keys, without spaces.
\<close>

definition json_Marshal :: "(string \<times> iface) list \<Rightarrow> string" where
  "json_Marshal kvs =
     ''{'' @ join '','' (map (\<lambda>(k, v). json_string k @ '':'' @ json_value v) (sort_key fst kvs))
       @ ''}''"

text \<open>\<^verbatim>\<open>json.Marshal\<close> of a \<^verbatim>\<open>map[string]string\<close>.\<close>

definition json_Marshal_strings :: "(string \<times> string) list \<Rightarrow> string" where
  "json_Marshal_strings kvs = json_Marshal (map (\<lambda>(k, v). (k, IString v)) kvs)"

subsection \<open>encoding/json: reading into a map of strings\<close>

text \<open>
  The scanner inside a string literal (\<^verbatim>\<open>stateInString\<close>, \<^verbatim>\<open>stateInStringEsc\<close>,
  \<^verbatim>\<open>stateInStringEscU\<close> to \<^verbatim>\<open>stateInStringEscU123\<close>): the number of bytes before the
  closing quote, or \<open>None\<close> for a syntax error.
\<close>

datatype strstate = InString | InStringEsc | InStringEscU nat

fun scanString :: "strstate \<Rightarrow> string \<Rightarrow> nat option" where
  "scanString st [] = None"
| "scanString InString (c # cs) =
     (if c = QUO then Some 0
      else if c = BSL then map_option Suc (scanString InStringEsc cs)
      else if (of_char c :: nat) < 0x20 then None
      else map_option Suc (scanString InString cs))"
| "scanString InStringEsc (c # cs) =
     (if c \<in> {CHR ''b'', CHR ''f'', CHR ''n'', CHR ''r'', CHR ''t'', BSL, CHR ''/'', QUO}
      then map_option Suc (scanString InString cs)
      else if c = CHR ''u'' then map_option Suc (scanString (InStringEscU 4) cs)
      else None)"
| "scanString (InStringEscU k) (c # cs) =
     (if ishex c
      then map_option Suc (scanString (if k \<le> 1 then InString else InStringEscU (k - 1)) cs)
      else None)"

text \<open>\<^verbatim>\<open>getu4\<close>: the number of a \<^verbatim>\<open>\uXXXX\<close> escape at the head, if there is one.\<close>

definition getu4 :: "string \<Rightarrow> nat option" where
  "getu4 s =
     (case s of
        b # u # h1 # h2 # h3 # h4 # _ \<Rightarrow>
          (if b = BSL \<and> u = CHR ''u'' \<and> ishex h1 \<and> ishex h2 \<and> ishex h3 \<and> ishex h4
           then Some (((unhex h1 * 16 + unhex h2) * 16 + unhex h3) * 16 + unhex h4)
           else None)
      | _ \<Rightarrow> None)"

text \<open>
  \<^verbatim>\<open>unquoteBytes\<close> on the bytes between the quotes: escapes are replaced, surrogate
  pairs joined, and everything is coerced to well-formed UTF-8. (The source first
  skips over a prefix without escapes and returns the input if that is all of it; the
  loop below gives the same bytes there.)
\<close>

fun unquoteBytes :: "string \<Rightarrow> string option" where
  "unquoteBytes [] = Some []"
| "unquoteBytes (c # cs) =
     (if c = BSL then
        (case cs of
           [] \<Rightarrow> None
         | e # cs' \<Rightarrow>
             if e = QUO \<or> e = BSL \<or> e = CHR ''/'' \<or> e = CHR 0x27
               then map_option ((#) e) (unquoteBytes cs')
             else if e = CHR ''b'' then map_option ((#) (CHR 0x08)) (unquoteBytes cs')
             else if e = CHR ''f'' then map_option ((#) (CHR 0x0C)) (unquoteBytes cs')
             else if e = CHR ''n'' then map_option ((#) (CHR 0x0A)) (unquoteBytes cs')
             else if e = CHR ''r'' then map_option ((#) (CHR 0x0D)) (unquoteBytes cs')
             else if e = CHR ''t'' then map_option ((#) (CHR 0x09)) (unquoteBytes cs')
             else if e = CHR ''u'' then
               (case getu4 (c # cs) of
                  None \<Rightarrow> None
                | Some rr \<Rightarrow>
                    if utf16_IsSurrogate rr then
                      (let dec = (case getu4 (drop 4 cs') of
                                    None \<Rightarrow> RuneError
                                  | Some rr1 \<Rightarrow> utf16_DecodeRune rr rr1)
                       in if dec \<noteq> RuneError
                          then map_option ((@) (utf8_EncodeRune dec)) (unquoteBytes (drop 10 cs'))
                          else map_option ((@) (utf8_EncodeRune RuneError))
                                 (unquoteBytes (drop 4 cs')))
                    else map_option ((@) (utf8_EncodeRune rr)) (unquoteBytes (drop 4 cs')))
             else None)
      else if c = QUO \<or> (of_char c :: nat) < 0x20 then None
      else if (of_char c :: nat) < 0x80 then map_option ((#) c) (unquoteBytes cs)
      else case utf8_DecodeRune (c # cs) of
        (rr, n) \<Rightarrow> map_option ((@) (utf8_EncodeRune rr)) (unquoteBytes (drop (n - 1) cs)))"

definition isSpace :: "char \<Rightarrow> bool" where
  "isSpace c = (c = CHR '' '' \<or> c = CHR 0x09 \<or> c = CHR 0x0D \<or> c = CHR 0x0A)"

definition skipSpace :: "string \<Rightarrow> string" where
  "skipSpace s = dropWhile isSpace s"

text \<open>A string literal at the head: its value and the number of bytes it takes.\<close>

definition stringLiteral :: "string \<Rightarrow> (string \<times> nat) option" where
  "stringLiteral s =
     (case s of
        [] \<Rightarrow> None
      | q # s1 \<Rightarrow>
          if q \<noteq> QUO then None
          else case scanString InString s1 of
            None \<Rightarrow> None
          | Some n \<Rightarrow> map_option (\<lambda>t. (t, n + 2)) (unquoteBytes (take n s1)))"

text \<open>
  The value of a member when the map's element type is \<^verbatim>\<open>string\<close>: a string
  literal, or \<^verbatim>\<open>null\<close>, which leaves the zero value \<^verbatim>\<open>""\<close>. A number, a
  boolean, an array or an object there is an \<^verbatim>\<open>UnmarshalTypeError\<close>, anything else a
  \<^verbatim>\<open>SyntaxError\<close>: \<open>None\<close> for both, since the handlers only test
  \<^verbatim>\<open>err != nil\<close>.
\<close>

definition mapElem :: "string \<Rightarrow> (string \<times> nat) option" where
  "mapElem s = (if take 4 s = ''null'' then Some ([], 4) else stringLiteral s)"

text \<open>The members of an object, from the first byte of a key on.\<close>

function object_members :: "(string \<rightharpoonup> string) \<Rightarrow> string \<Rightarrow> (string \<rightharpoonup> string) option" where
  "object_members m s =
     (case stringLiteral s of
        None \<Rightarrow> None
      | Some (key, n) \<Rightarrow>
          (case skipSpace (drop n s) of
             [] \<Rightarrow> None
           | c # s1 \<Rightarrow>
               if c \<noteq> CHR '':'' then None
               else case mapElem (skipSpace s1) of
                 None \<Rightarrow> None
               | Some (v, k) \<Rightarrow>
                   (case skipSpace (drop k (skipSpace s1)) of
                      [] \<Rightarrow> None
                    | d # s3 \<Rightarrow>
                        if d = CHR '','' then object_members (m(key \<mapsto> v)) (skipSpace s3)
                        else if d = CHR ''}'' then
                          (if skipSpace s3 = [] then Some (m(key \<mapsto> v)) else None)
                        else None)))"
  by pat_completeness auto
termination
proof (relation "measure (\<lambda>(m, s). length s)")
  show "wf (measure (\<lambda>(m, s). length s))" by simp
next
  fix m :: "string \<rightharpoonup> string" and s s1 s3 key v :: string and n k :: nat and c d x y
  assume a: "skipSpace (drop n s) = c # s1"
    and b: "skipSpace (drop k (skipSpace s1)) = d # s3"
  have le: "\<And>t. length (skipSpace t) \<le> length t"
    by (simp add: skipSpace_def length_dropWhile_le)
  have "length s1 < length s"
    using le [of "drop n s"] a by simp
  moreover have "length s3 < length s1"
    using le [of "drop k (skipSpace s1)"] le [of s1] b by simp
  ultimately have "length (skipSpace s3) < length s"
    using le [of s3] by simp
  then show "((m(key \<mapsto> v), skipSpace s3), (m, s)) \<in> measure (\<lambda>(m, s). length s)"
    by simp
qed

text \<open>
  \<^verbatim>\<open>json.Unmarshal(data, &m)\<close> for \<^verbatim>\<open>var m map[string]string\<close>: \<open>Some\<close> of the map
  when \<^verbatim>\<open>err == nil\<close>. The text must be one object whose members are strings or
  \<^verbatim>\<open>null\<close>, or the literal \<^verbatim>\<open>null\<close> (the map stays nil, which reads as empty);
  a later member with the same key replaces the earlier one.
\<close>

definition json_Unmarshal :: "string \<Rightarrow> (string \<rightharpoonup> string) option" where
  "json_Unmarshal data =
     (let s = skipSpace data in
      if take 4 s = ''null'' then (if skipSpace (drop 4 s) = [] then Some Map.empty else None)
      else case s of
        [] \<Rightarrow> None
      | c # s1 \<Rightarrow>
          if c \<noteq> CHR ''{'' then None
          else case skipSpace s1 of
            [] \<Rightarrow> None
          | d # s3 \<Rightarrow>
              if d = CHR ''}'' then (if skipSpace s3 = [] then Some Map.empty else None)
              else object_members Map.empty (skipSpace s1))"

text \<open>Reading a Go map: a missing key gives the zero value.\<close>

definition index_map :: "(string \<rightharpoonup> string) \<Rightarrow> string \<Rightarrow> string" where
  "index_map m k = (case m k of None \<Rightarrow> [] | Some v \<Rightarrow> v)"

section \<open>The transient store and the response writer\<close>

text \<open>
  \<^verbatim>\<open>storage.Store\<close> is the interface of the injected provider. \<^verbatim>\<open>Get\<close> returns an
  error when the key holds no value. Whether a \<^verbatim>\<open>Put\<close> fails is the provider's
  decision, \<open>put_err\<close>. Every call is recorded in \<open>ops\<close>, so that "no read" and
  "no write" can be said of a handler.
\<close>

datatype store_op = Get string | Put string string

record store =
  kv :: "string \<rightharpoonup> string"
  put_err :: "string \<Rightarrow> bool"
  ops :: "store_op list"

definition store_Get :: "store \<Rightarrow> string \<Rightarrow> string option \<times> store" where
  "store_Get s k = (kv s k, s\<lparr>ops := ops s @ [Get k]\<rparr>)"

text \<open>\<open>True\<close> is \<^verbatim>\<open>err == nil\<close>.\<close>

definition store_Put :: "store \<Rightarrow> string \<Rightarrow> string \<Rightarrow> bool \<times> store" where
  "store_Put s k v =
     (if put_err s k then (False, s\<lparr>ops := ops s @ [Put k v]\<rparr>)
      else (True, s\<lparr>kv := (kv s)(k \<mapsto> v), ops := ops s @ [Put k v]\<rparr>))"

definition getCredStoreKeyPrefix :: "string \<Rightarrow> string" where
  "getCredStoreKeyPrefix key = ''cred_store_'' @ key"

definition getAuthStateKeyPrefix :: "string \<Rightarrow> string" where
  "getAuthStateKeyPrefix key = ''authstate_'' @ key"

definition getAuthCodeKeyPrefix :: "string \<Rightarrow> string" where
  "getAuthCodeKeyPrefix key = ''authcode_'' @ key"

definition getAccessTokenKeyPrefix :: "string \<Rightarrow> string" where
  "getAccessTokenKeyPrefix key = ''access_token_'' @ key"

text \<open>
  \<^verbatim>\<open>http.ResponseWriter\<close>: the status is fixed by the first \<^verbatim>\<open>WriteHeader\<close> (a later
  call is ignored, a \<^verbatim>\<open>Write\<close> before any sends 200); headers count when set before it.
\<close>

record http_Cookie =
  Name :: string
  Value :: string
  Expires :: nat
  Path :: string

record response =
  code :: "nat option"
  header :: "string \<rightharpoonup> string"
  cookies :: "http_Cookie list"
  redirect :: "string option"
  body :: string

definition newResponse :: response where
  "newResponse = \<lparr>code = None, header = Map.empty, cookies = [], redirect = None, body = []\<rparr>"

definition WriteHeader :: "nat \<Rightarrow> response \<Rightarrow> response" where
  "WriteHeader c w = (case code w of None \<Rightarrow> w\<lparr>code := Some c\<rparr> | Some _ \<Rightarrow> w)"

definition Write :: "string \<Rightarrow> response \<Rightarrow> response" where
  "Write data w = (WriteHeader 200 w)\<lparr>body := body w @ data\<rparr>"

definition Header_Set :: "string \<Rightarrow> string \<Rightarrow> response \<Rightarrow> response" where
  "Header_Set k v w = (case code w of None \<Rightarrow> w\<lparr>header := (header w)(k \<mapsto> v)\<rparr> | Some _ \<Rightarrow> w)"

definition http_SetCookie :: "http_Cookie \<Rightarrow> response \<Rightarrow> response" where
  "http_SetCookie c w = (case code w of None \<Rightarrow> w\<lparr>cookies := cookies w @ [c]\<rparr> | Some _ \<Rightarrow> w)"

text \<open>
  \<^verbatim>\<open>http.Redirect\<close>: the status, and in \<open>redirect\<close> the target as the handler gives it.
  (The library writes the target into the \<^verbatim>\<open>Location\<close> header after making a path
  without scheme absolute and escaping bytes outside ASCII, and adds a short body to a
  redirected GET; neither is modelled.)
\<close>

definition http_Redirect :: "string \<Rightarrow> nat \<Rightarrow> response \<Rightarrow> response" where
  "http_Redirect url c w =
     (case code w of None \<Rightarrow> WriteHeader c (w\<lparr>redirect := Some url\<rparr>) | Some _ \<Rightarrow> w)"

abbreviation StatusOK :: nat where "StatusOK \<equiv> 200"
abbreviation StatusFound :: nat where "StatusFound \<equiv> 302"
abbreviation StatusBadRequest :: nat where "StatusBadRequest \<equiv> 400"
abbreviation StatusForbidden :: nat where "StatusForbidden \<equiv> 403"
abbreviation StatusInternalServerError :: nat where "StatusInternalServerError \<equiv> 500"

definition writeErrorResponse :: "response \<Rightarrow> nat \<Rightarrow> string \<Rightarrow> response" where
  "writeErrorResponse rw status msg = Write msg (WriteHeader status rw)"

definition writeResponse :: "response \<Rightarrow> nat \<Rightarrow> string \<Rightarrow> response" where
  "writeResponse rw status data = Write data (WriteHeader status rw)"

definition setOIDCResponseHeaders :: "response \<Rightarrow> response" where
  "setOIDCResponseHeaders w =
     Header_Set ''Pragma'' ''no-cache''
       (Header_Set ''Cache-Control'' ''no-store''
         (Header_Set ''Content-Type'' ''application/json'' w))"

definition sendOIDCErrorResponse :: "response \<Rightarrow> string \<Rightarrow> nat \<Rightarrow> response" where
  \<open>sendOIDCErrorResponse w msg status =
     writeResponse (WriteHeader status w) status (''{"error": "'' @ msg @ ''"}'')\<close>

text \<open>
  What a handler reads of the request: whether \<^verbatim>\<open>r.ParseForm()\<close> fails, the first
  value of each form parameter (\<^verbatim>\<open>r.Form.Get\<close>, \<^verbatim>\<open>r.FormValue\<close>), the headers, the
  cookies and the path variables of the router.
\<close>

record request =
  parseErr :: bool
  form :: "string \<rightharpoonup> string"
  headers :: "string \<rightharpoonup> string"
  reqCookies :: "string \<rightharpoonup> string"
  vars :: "string \<rightharpoonup> string"

definition FormValue :: "request \<Rightarrow> string \<Rightarrow> string" where
  "FormValue r k = index_map (form r) k"

section \<open>The issuer configuration builder\<close>

text \<open>
  The request body and the configuration document. The declarations of the two structs
  are not in the source; the fields are those \<^verbatim>\<open>initiateIssuance\<close> reads and sets, the
  manifest and the credential being raw JSON bytes.
\<close>

record oidcIssuanceRequest =
  WalletInitIssuanceURL :: string
  CredentialTypes :: string
  ManifestIDs :: string
  IssuerURL :: string
  CredManifest :: string
  Credential :: string

record issuerConfiguration =
  Issuer :: string
  AuthorizationEndpoint :: string
  TokenEndpoint :: string
  CredentialEndpoint :: string
  CredentialManifests :: string

definition saveIssuanceConfig :: "store \<Rightarrow> string \<Rightarrow> string \<Rightarrow> string \<Rightarrow> bool \<times> store" where
  "saveIssuanceConfig st key issuerConf credential =
     (case store_Put st key issuerConf of
        (ok, st1) \<Rightarrow>
          if \<not> ok then (False, st1)
          else store_Put st1 (getCredStoreKeyPrefix key) credential)"

text \<open>
  \<^verbatim>\<open>initiateIssuance\<close>. Its surroundings are arguments: \<open>decoded\<close> is the request body
  as \<^verbatim>\<open>json.NewDecoder(r.Body).Decode\<close> delivers it (\<open>None\<close> when that fails),
  \<open>walletURL\<close> the configured default, \<open>key\<close> the value of \<^verbatim>\<open>uuid.NewString()\<close>,
  \<open>marshalIndent\<close> is \<^verbatim>\<open>json.MarshalIndent\<close> on \<^verbatim>\<open>issuerConfiguration\<close> (the
  declaration of that struct, with its JSON field names, is not in the source;
  \<open>None\<close> when marshalling fails), and \<open>parseWalletURL\<close> is the function of that name,
  which builds the wallet link with \<^verbatim>\<open>net/url\<close> (\<open>None\<close> when the URL does not
  parse). The library's error text at the end of an error message is left out.
\<close>

definition initiateIssuance ::
  "(issuerConfiguration \<Rightarrow> string option) \<Rightarrow>
   (string \<Rightarrow> string \<Rightarrow> string list \<Rightarrow> string list \<Rightarrow> string option) \<Rightarrow>
   string \<Rightarrow> string \<Rightarrow> store \<Rightarrow> oidcIssuanceRequest option \<Rightarrow> response \<times> store" where
  "initiateIssuance marshalIndent parseWalletURL walletURL key st decoded =
     (let w = newResponse in
      case decoded of
        None \<Rightarrow> (writeErrorResponse w StatusBadRequest ''failed to decode request: '', st)
      | Some oidcIssuanceReq \<Rightarrow>
          let walletURL' = (if WalletInitIssuanceURL oidcIssuanceReq = []
                            then walletURL else WalletInitIssuanceURL oidcIssuanceReq);
              credentialTypes = strings_Split (CredentialTypes oidcIssuanceReq) '','';
              manifestIDs = strings_Split (ManifestIDs oidcIssuanceReq) '','';
              issuerURL = IssuerURL oidcIssuanceReq;
              credManifest = CredManifest oidcIssuanceReq;
              credential = Credential oidcIssuanceReq;
              issuer = issuerURL @ ''/'' @ key
          in case marshalIndent \<lparr>Issuer = issuer,
                                  AuthorizationEndpoint = issuer @ ''/oidc/authorize'',
                                  TokenEndpoint = issuer @ ''/oidc/token'',
                                  CredentialEndpoint = issuer @ ''/oidc/credential'',
                                  CredentialManifests = credManifest\<rparr> of
               None \<Rightarrow>
                 (writeErrorResponse w StatusInternalServerError
                    ''failed to prepare issuer wellknown configuration : '', st)
             | Some issuerConf \<Rightarrow>
                 (case saveIssuanceConfig st key issuerConf credential of
                    (ok, st') \<Rightarrow>
                      if \<not> ok then
                        (writeErrorResponse w StatusInternalServerError
                           ''failed to store issuer server configuration : '', st')
                      else case parseWalletURL walletURL' issuer credentialTypes manifestIDs of
                        None \<Rightarrow>
                          (writeErrorResponse w StatusInternalServerError
                             ''failed to parse wallet init issuance URL : '', st')
                      | Some redirectURL \<Rightarrow> (writeResponse w StatusOK redirectURL, st')))"

definition wellKnownConfiguration :: "store \<Rightarrow> request \<Rightarrow> response \<times> store" where
  "wellKnownConfiguration st r =
     (let w = Header_Set ''Access-Control-Allow-Origin'' ''*'' newResponse;
          id = index_map (vars r) ''id''
      in case store_Get st id of
        (None, st') \<Rightarrow>
          (writeErrorResponse w StatusInternalServerError
             ''failed to read well known configuration : '', st')
      | (Some issuerConf, st') \<Rightarrow>
          (writeResponse (Header_Set ''Content-Type'' ''application/json'' w) StatusOK
             issuerConf, st'))"

section \<open>The mock OIDC4VCI authorization endpoints\<close>

definition oidcIssuanceLogin :: string where
  "oidcIssuanceLogin = ''/oidc/login''"

text \<open>
  \<^verbatim>\<open>oidcAuthorize\<close>; \<open>now\<close> is \<^verbatim>\<open>time.Now()\<close> in seconds and \<open>authState\<close> the value of
  \<^verbatim>\<open>uuid.NewString()\<close>. \<^verbatim>\<open>json.Marshal\<close> of a map of strings cannot fail, so the
  branch for its error is not reachable.
\<close>

definition oidcAuthorize :: "nat \<Rightarrow> string \<Rightarrow> store \<Rightarrow> request \<Rightarrow> response \<times> store" where
  "oidcAuthorize now authState st r =
     (let w = newResponse in
      if parseErr r then
        (writeErrorResponse w StatusBadRequest ''failed to parse request : '', st)
      else case url_PathUnescape (FormValue r ''claims'') of
        None \<Rightarrow> (writeErrorResponse w StatusBadRequest ''failed to read claims : '', st)
      | Some claims \<Rightarrow>
          (case url_PathUnescape (FormValue r ''redirect_uri'') of
             None \<Rightarrow> (writeErrorResponse w StatusBadRequest ''failed to read redirect URI : '', st)
           | Some redirectURI \<Rightarrow>
               let scope = FormValue r ''scope'';
                   state = FormValue r ''state'';
                   responseType = FormValue r ''response_type'';
                   clientID = FormValue r ''client_id''
               in if claims = [] \<or> redirectURI = [] \<or> clientID = [] \<or> state = [] then
                    (writeErrorResponse w StatusBadRequest ''Invalid Request'', st)
                  else
                    let authRequest = json_Marshal_strings
                          [(''claims'', claims),
                           (''scope'', scope),
                           (''state'', state),
                           (''response_type'', responseType),
                           (''client_id'', clientID),
                           (''redirect_uri'', redirectURI)]
                    in case store_Put st (getAuthStateKeyPrefix authState) authRequest of
                      (ok, st') \<Rightarrow>
                        if \<not> ok then
                          (writeErrorResponse w StatusInternalServerError
                             ''failed to save state : '', st')
                        else
                          (http_Redirect oidcIssuanceLogin StatusFound
                             (http_SetCookie \<lparr>Name = ''state'', Value = authState,
                                               Expires = now + 5 * 60, Path = ''/''\<rparr> w),
                           st')))"

text \<open>\<^verbatim>\<open>oidcSendAuthorizeResponse\<close>; \<open>authCode\<close> is the value of \<^verbatim>\<open>uuid.NewString()\<close>.\<close>

definition oidcSendAuthorizeResponse :: "string \<Rightarrow> store \<Rightarrow> request \<Rightarrow> response \<times> store" where
  "oidcSendAuthorizeResponse authCode st r =
     (let w = newResponse in
      case reqCookies r ''state'' of
        None \<Rightarrow> (writeErrorResponse w StatusForbidden ''invalid state'', st)
      | Some stateCookie \<Rightarrow>
          (case store_Get st (getAuthStateKeyPrefix stateCookie) of
             (None, st1) \<Rightarrow> (writeErrorResponse w StatusBadRequest ''invalid request'', st1)
           | (Some authRqstBytes, st1) \<Rightarrow>
               (case json_Unmarshal authRqstBytes of
                  None \<Rightarrow>
                    (writeErrorResponse w StatusInternalServerError ''failed to read request'', st1)
                | Some authRequest \<Rightarrow>
                    (case authRequest ''redirect_uri'' of
                       None \<Rightarrow>
                         (writeErrorResponse w StatusInternalServerError
                            ''failed to redirect, invalid URL'', st1)
                     | Some redirectURI \<Rightarrow>
                         (case authRequest ''state'' of
                            None \<Rightarrow>
                              (writeErrorResponse w StatusInternalServerError
                                 ''failed to redirect, invalid state'', st1)
                          | Some state \<Rightarrow>
                              (case store_Put st1 (getAuthCodeKeyPrefix authCode) stateCookie of
                                 (ok, st2) \<Rightarrow>
                                   if \<not> ok then
                                     (writeErrorResponse w StatusInternalServerError
                                        ''failed to store state cookie value'', st2)
                                   else
                                     (http_Redirect
                                        (redirectURI @ ''?code='' @ authCode @ ''&state='' @ state)
                                        StatusFound w, st2)))))))"

text \<open>
  The authorization request as \<^verbatim>\<open>oidcSendAuthorizeResponse\<close> and \<^verbatim>\<open>oidcTokenEndpoint\<close>
  load it: the bytes under \<^verbatim>\<open>authstate_{authState}\<close>, unmarshalled; and one field of it.
\<close>

definition storedAuthRequest :: "store \<Rightarrow> string \<Rightarrow> (string \<rightharpoonup> string) option" where
  "storedAuthRequest st authState =
     (case kv st (getAuthStateKeyPrefix authState) of
        None \<Rightarrow> None
      | Some authRqstBytes \<Rightarrow> json_Unmarshal authRqstBytes)"

definition storedField :: "store \<Rightarrow> string \<Rightarrow> string \<Rightarrow> string option" where
  "storedField st authState k =
     (case storedAuthRequest st authState of None \<Rightarrow> None | Some authRequest \<Rightarrow> authRequest k)"

text \<open>\<^verbatim>\<open>time.Second\<close>, a \<^verbatim>\<open>time.Duration\<close>: a count of nanoseconds.\<close>

definition time_Second :: int where
  "time_Second = 1000000000"

text \<open>
  \<^verbatim>\<open>oidcTokenEndpoint\<close>; \<open>mockAccessToken\<close> is the value of \<^verbatim>\<open>uuid.NewString()\<close>.
  The map it marshals holds two strings and a duration, which cannot fail, so the branch
  for that error is not reachable.
\<close>

definition oidcTokenEndpoint :: "string \<Rightarrow> store \<Rightarrow> request \<Rightarrow> response \<times> store" where
  "oidcTokenEndpoint mockAccessToken st r =
     (let w = setOIDCResponseHeaders newResponse;
          code = FormValue r ''code'';
          redirectURI = FormValue r ''redirect_uri'';
          grantType = FormValue r ''grant_type''
      in if grantType \<noteq> ''authorization_code'' then
           (sendOIDCErrorResponse w ''unsupported grant type'' StatusBadRequest, st)
         else case store_Get st (getAuthCodeKeyPrefix code) of
           (None, st1) \<Rightarrow> (sendOIDCErrorResponse w ''invalid state'' StatusBadRequest, st1)
         | (Some authState, st1) \<Rightarrow>
             (case store_Get st1 (getAuthStateKeyPrefix authState) of
                (None, st2) \<Rightarrow> (sendOIDCErrorResponse w ''invalid request'' StatusBadRequest, st2)
              | (Some authRqstBytes, st2) \<Rightarrow>
                  (case json_Unmarshal authRqstBytes of
                     None \<Rightarrow>
                       (sendOIDCErrorResponse w ''failed to read request''
                          StatusInternalServerError, st2)
                   | Some authRequest \<Rightarrow>
                       if index_map authRequest ''redirect_uri'' \<noteq> redirectURI then
                         (sendOIDCErrorResponse w ''request validation failed''
                            StatusInternalServerError, st2)
                       else
                         let mockIssuerID = index_map (vars r) ''id'' in
                         case store_Put st2 (getAccessTokenKeyPrefix mockAccessToken)
                                mockIssuerID of
                           (ok, st3) \<Rightarrow>
                             if \<not> ok then
                               (sendOIDCErrorResponse w ''failed to save token state''
                                  StatusInternalServerError, st3)
                             else
                               (writeResponse w StatusOK
                                  (json_Marshal
                                     [(''token_type'', IString ''Bearer''),
                                      (''access_token'', IString mockAccessToken),
                                      (''expires_in'', IInt64 (3600 * time_Second))]),
                                st3))))"

text \<open>
  What \<^verbatim>\<open>oidcCredentialEndpoint\<close> does with the stored credential lies in other
  libraries: \<^verbatim>\<open>verifiable.ParseCredential\<close>, \<^verbatim>\<open>signVCWithED25519\<close> with the current
  time, \<^verbatim>\<open>credential.MarshalJSON\<close>. The three steps are one argument of the model,
  with a result that says which step failed.
\<close>

datatype issued = ParseFailed | SignFailed | MarshalFailed | Signed string

definition oidcCredentialEndpoint ::
  "(string \<Rightarrow> issued) \<Rightarrow> store \<Rightarrow> request \<Rightarrow> response \<times> store" where
  "oidcCredentialEndpoint issue st r =
     (let w = setOIDCResponseHeaders newResponse;
          format = FormValue r ''format''
      in if format \<noteq> [] \<and> format \<noteq> ''ldp_vc'' then
           (sendOIDCErrorResponse w ''unsupported format requested'' StatusBadRequest, st)
         else
           let authHeader = strings_Split (index_map (headers r) ''Authorization'') ''Bearer ''
           in if length authHeader \<noteq> 2 then
                (sendOIDCErrorResponse w ''malformed token'' StatusBadRequest, st)
              else if authHeader ! 1 = [] then
                (sendOIDCErrorResponse w ''invalid token'' StatusForbidden, st)
              else
                let mockIssuerID = index_map (vars r) ''id'' in
                case store_Get st (getAccessTokenKeyPrefix (authHeader ! 1)) of
                  (None, st1) \<Rightarrow>
                    (sendOIDCErrorResponse w ''unsupported format requested''
                       StatusBadRequest, st1)
                | (Some issuerID, st1) \<Rightarrow>
                    if mockIssuerID \<noteq> issuerID then
                      (sendOIDCErrorResponse w ''invalid transaction'' StatusForbidden, st1)
                    else case store_Get st1 (getCredStoreKeyPrefix mockIssuerID) of
                      (None, st2) \<Rightarrow>
                        (sendOIDCErrorResponse w ''failed to get credential''
                           StatusInternalServerError, st2)
                    | (Some credentialBytes, st2) \<Rightarrow>
                        (case issue credentialBytes of
                           ParseFailed \<Rightarrow>
                             (sendOIDCErrorResponse w ''failed to prepare credential''
                                StatusInternalServerError, st2)
                         | SignFailed \<Rightarrow>
                             (sendOIDCErrorResponse w ''failed to issue credential''
                                StatusInternalServerError, st2)
                         | MarshalFailed \<Rightarrow>
                             (sendOIDCErrorResponse w ''failed to write credential bytes''
                                StatusInternalServerError, st2)
                         | Signed credBytes \<Rightarrow>
                             (writeResponse w StatusOK
                                (json_Marshal
                                   [(''format'', IString format),
                                    (''credential'', IRawMessage credBytes)]),
                              st2)))"

section \<open>Credential assembly\<close>

text \<open>
  The values of a \<^verbatim>\<open>map[string]interface{}\<close> decoded from JSON. Numbers
  (\<^verbatim>\<open>float64\<close>) are carried and never computed with: their type is a parameter.
  A map is the list of its entries, with one entry for a key.
\<close>

datatype 'n any = ANil | ABool bool | AFloat64 'n | AString string
  | ASlice "'n any list" | AMap "(string \<times> 'n any) list"

definition index_any :: "(string \<times> 'n any) list \<Rightarrow> string \<Rightarrow> 'n any" where
  "index_any m k = (case map_of m k of None \<Rightarrow> ANil | Some v \<Rightarrow> v)"

text \<open>A failed type assertion \<^verbatim>\<open>v.(T)\<close> panics; an error is returned to the caller.\<close>

datatype 'a outcome = Panic | Error string | Return 'a

text \<open>The loop of \<^verbatim>\<open>getCustomContext\<close>, with the assertion \<^verbatim>\<open>v.(string)\<close>.\<close>

fun appendStrings :: "string list \<Rightarrow> 'n any list \<Rightarrow> string list outcome" where
  "appendStrings result [] = Return result"
| "appendStrings result (v # vs) =
     (case v of AString s \<Rightarrow> appendStrings (result @ [s]) vs | _ \<Rightarrow> Panic)"

definition getCustomContext ::
  "string list \<Rightarrow> (string \<times> 'n any) list \<Rightarrow> string list outcome" where
  "getCustomContext existingContext customCtx =
     (case map_of customCtx ''@context'' of
        Some ctx \<Rightarrow> (case ctx of ASlice vs \<Rightarrow> appendStrings [] vs | _ \<Rightarrow> Panic)
      | None \<Rightarrow> Return existingContext)"

definition credentialContext :: string where
  "credentialContext = ''https://www.w3.org/2018/credentials/v1''"

definition trustBlocExampleContext :: string where
  "trustBlocExampleContext = ''https://trustbloc.github.io/context/vc/examples-ext-v1.jsonld''"

definition citizenshipContext :: string where
  "citizenshipContext = ''https://w3id.org/citizenship/v1''"

definition externalScopeQueryParam :: string where
  "externalScopeQueryParam = ''subject_data''"

text \<open>The fields of \<^verbatim>\<open>vcprofile.IssuerProfile\<close> and \<^verbatim>\<open>verifiable.Credential\<close> in use.\<close>

record issuerProfile =
  DID :: string
  ProfileName :: string
  URI :: string

record 'n credential =
  Context :: "string list"
  Types :: "string list"
  Subject :: "'n any"
  Issued :: nat
  IssuerID :: string
  IssuerCustomFields :: "(string \<times> 'n any) list"
  ID :: string
  CustomFields :: "(string \<times> 'n any) list"

text \<open>
  \<^verbatim>\<open>prepareCredential\<close>, up to the credential it hands to \<^verbatim>\<open>json.Marshal\<close> (the
  marshaller of \<^verbatim>\<open>verifiable.Credential\<close> belongs to another library). \<open>profile\<close> is
  the result of \<^verbatim>\<open>retrieveProfile\<close>, a request to the VC service (\<open>None\<close> when it
  fails), \<open>now\<close> is \<^verbatim>\<open>time.Now().UTC()\<close> and \<open>newUUID\<close> the value of
  \<^verbatim>\<open>uuid.New().String()\<close>.
\<close>

definition prepareCredential ::
  "issuerProfile option \<Rightarrow> nat \<Rightarrow> string \<Rightarrow> (string \<times> 'n any) list \<Rightarrow> string \<Rightarrow> string
     \<Rightarrow> 'n credential outcome" where
  "prepareCredential profile now newUUID subject0 scope vcsProfile =
     (let subject1 = AList.update ''id'' (AString []) subject0;
          defaultCredTypes = [''VerifiableCredential'', ''PermanentResidentCard''];
          vcContext0 = [credentialContext, trustBlocExampleContext];
          meta = (case map_of subject1 ''vcmetadata'' of
                    Some (AMap vcMetaData) \<Rightarrow>
                      (case getCustomContext vcContext0 vcMetaData of
                         Panic \<Rightarrow> Panic
                       | Error e \<Rightarrow> Error e
                       | Return ctx \<Rightarrow>
                           Return (ctx, [(''name'', index_any vcMetaData ''name''),
                                         (''description'', index_any vcMetaData ''description'')]))
                  | _ \<Rightarrow> Return (vcContext0, []))
      in case meta of
        Panic \<Rightarrow> Panic
      | Error e \<Rightarrow> Error e
      | Return (vcContext, customFields0) \<Rightarrow>
          let subject = AList.delete ''vcmetadata''
                          (AList.delete ''userid''
                            (AList.delete ''updated_at''
                              (AList.delete ''created_at'' subject1)))
          in case profile of
            None \<Rightarrow> Error (''retrieve profile - name='' @ vcsProfile)
          | Some profileResponse \<Rightarrow>
              let cred =
                    (if scope = externalScopeQueryParam then
                       \<lparr>Context = [credentialContext, citizenshipContext],
                        Types = defaultCredTypes,
                        Subject = index_any subject ''subjectData'',
                        Issued = now,
                        IssuerID = DID profileResponse,
                        IssuerCustomFields = [(''name'', AString (ProfileName profileResponse))],
                        ID = URI profileResponse @ ''/'' @ newUUID,
                        CustomFields =
                          AList.update ''name'' (AString ''Permanent Resident Card'')
                            customFields0\<rparr>
                     else
                       \<lparr>Context = vcContext,
                        Types = [''VerifiableCredential'', scope],
                        Subject = AMap subject,
                        Issued = now,
                        IssuerID = DID profileResponse,
                        IssuerCustomFields = [(''name'', AString (ProfileName profileResponse))],
                        ID = URI profileResponse @ ''/'' @ newUUID,
                        CustomFields = customFields0\<rparr>)
              in Return (case map_of subject ''vccredentialsubject'' of
                           Some (AMap s) \<Rightarrow> cred\<lparr>Subject := AMap s\<rparr>
                         | _ \<Rightarrow> cred))"

text \<open>The \<^verbatim>\<open>@context\<close> of the credential that was prepared, if one was.\<close>

definition contextOf :: "'n credential outcome \<Rightarrow> string list option" where
  "contextOf out = (case out of Return cred \<Rightarrow> Some (Context cred) | _ \<Rightarrow> None)"

section \<open>Example stores and requests\<close>

definition emptyStore :: store where
  "emptyStore = \<lparr>kv = Map.empty, put_err = (\<lambda>k. False), ops = []\<rparr>"

definition emptyRequest :: request where
  "emptyRequest = \<lparr>parseErr = False, form = Map.empty, headers = Map.empty,
                    reqCookies = Map.empty, vars = Map.empty\<rparr>"

text \<open>A token request with the grant type \<^verbatim>\<open>password\<close>.\<close>

definition passwordGrant :: request where
  "passwordGrant = emptyRequest\<lparr>form := [''grant_type'' \<mapsto> ''password'', ''code'' \<mapsto> ''c1'']\<rparr>"

text \<open>
  A store after \<^verbatim>\<open>authorize\<close> and \<^verbatim>\<open>authorize-request\<close>: the code \<^verbatim>\<open>c1\<close> leads to the
  state \<^verbatim>\<open>s1\<close>, whose record has the redirect URI \<^verbatim>\<open>https://wallet.example/cb\<close>.
\<close>

definition authRecord :: string where
  "authRecord = json_Marshal_strings
     [(''claims'', ''{}''), (''scope'', ''openid''), (''state'', ''xyz''),
      (''response_type'', ''code''), (''client_id'', ''wallet''),
      (''redirect_uri'', ''https://wallet.example/cb'')]"

definition codeStore :: store where
  "codeStore = emptyStore\<lparr>kv := [''authcode_c1'' \<mapsto> ''s1'', ''authstate_s1'' \<mapsto> authRecord]\<rparr>"

definition tokenRequest :: "string \<Rightarrow> request" where
  "tokenRequest redirectURI =
     emptyRequest\<lparr>form := [''grant_type'' \<mapsto> ''authorization_code'', ''code'' \<mapsto> ''c1'',
                            ''redirect_uri'' \<mapsto> redirectURI],
                   vars := [''id'' \<mapsto> ''issuer1'']\<rparr>"

definition credentialRequest :: "string \<Rightarrow> request" where
  "credentialRequest authorization =
     emptyRequest\<lparr>headers := [''Authorization'' \<mapsto> authorization],
                   vars := [''id'' \<mapsto> ''issuer1'']\<rparr>"

text \<open>An authorize request without \<^verbatim>\<open>client_id\<close>.\<close>

definition authorizeNoClient :: request where
  "authorizeNoClient =
     emptyRequest\<lparr>form := [''claims'' \<mapsto> ''{}'', ''redirect_uri'' \<mapsto> ''https://wallet.example/cb'',
                            ''state'' \<mapsto> ''xyz'']\<rparr>"

text \<open>The same before \<^verbatim>\<open>authorize-request\<close>, and the request that carries the cookie.\<close>

definition stateStore :: store where
  "stateStore = emptyStore\<lparr>kv := [''authstate_s1'' \<mapsto> authRecord]\<rparr>"

definition cookieRequest :: request where
  "cookieRequest = emptyRequest\<lparr>reqCookies := [''state'' \<mapsto> ''s1'']\<rparr>"

text \<open>A store after \<^verbatim>\<open>token\<close>: the access token \<^verbatim>\<open>abc\<close> of the issuer \<^verbatim>\<open>issuer1\<close>.\<close>

definition tokenStore :: store where
  "tokenStore = emptyStore\<lparr>kv := [''access_token_abc'' \<mapsto> ''issuer1'',
                                    ''cred_store_issuer1'' \<mapsto> ''{}'']\<rparr>"

text \<open>
  An issuance request, with stand-ins for the marshaller of the configuration and for
  the wallet link.
\<close>

definition issuanceRequest :: oidcIssuanceRequest where
  \<open>issuanceRequest = \<lparr>WalletInitIssuanceURL = [], CredentialTypes = ''VerifiedEmployee'',
                       ManifestIDs = ''m1'', IssuerURL = ''https://issuer.example'',
                       CredManifest = ''{}'', Credential = ''{"id":"vc1"}''\<rparr>\<close>

definition showConfiguration :: "issuerConfiguration \<Rightarrow> string option" where
  "showConfiguration c =
     Some (join '' '' [Issuer c, AuthorizationEndpoint c, TokenEndpoint c,
                       CredentialEndpoint c, CredentialManifests c])"

definition showWalletURL :: "string \<Rightarrow> string \<Rightarrow> string list \<Rightarrow> string list \<Rightarrow> string option" where
  "showWalletURL walletURL issuer credentialTypes manifestIDs =
     Some (walletURL @ ''?issuer='' @ issuer)"

text \<open>Subjects with a context of their own, and an issuer profile.\<close>

definition subjectWithContext :: "(string \<times> unit any) list" where
  "subjectWithContext =
     [(''name'', AString ''Alice''),
      (''vcmetadata'', AMap [(''@context'', ASlice [AString ''a'', AString ''b''])])]"

definition subjectWithInlineContext :: "(string \<times> unit any) list" where
  "subjectWithInlineContext =
     [(''vcmetadata'', AMap [(''@context'', ASlice [AString ''a'', AMap []])])]"

definition demoProfile :: issuerProfile where
  "demoProfile = \<lparr>DID = ''did:example:123'', ProfileName = ''Demo'',
                   URI = ''https://vcs.example''\<rparr>"

text \<open>
  Authorize requests: one whose \<^verbatim>\<open>state\<close> is the single byte \<open>0xFF\<close> (the query
  \<^verbatim>\<open>state=%ff\<close>), which is not UTF-8; one whose \<^verbatim>\<open>claims\<close> is the three characters
  \<^verbatim>\<open>%41\<close> after the form is parsed (the query \<^verbatim>\<open>claims=%2541\<close>); and one with all six
  parameters and no percent sign.
\<close>

definition authorizeInvalidUTF8 :: request where
  "authorizeInvalidUTF8 =
     emptyRequest\<lparr>form := [''claims'' \<mapsto> ''{}'', ''redirect_uri'' \<mapsto> ''https://wallet.example/cb'',
                            ''client_id'' \<mapsto> ''wallet'', ''state'' \<mapsto> [CHR 0xFF]]\<rparr>"

definition authorizePercent :: request where
  "authorizePercent =
     emptyRequest\<lparr>form := [''claims'' \<mapsto> ''%41'',
                            ''redirect_uri'' \<mapsto> ''https://wallet.example/cb'',
                            ''client_id'' \<mapsto> ''wallet'', ''state'' \<mapsto> ''xyz'',
                            ''scope'' \<mapsto> ''openid'', ''response_type'' \<mapsto> ''code'']\<rparr>"

definition authorizeRequest :: request where
  "authorizeRequest =
     emptyRequest\<lparr>form := [''claims'' \<mapsto> ''{}'',
                            ''redirect_uri'' \<mapsto> ''https://wallet.example/cb'',
                            ''client_id'' \<mapsto> ''wallet'', ''state'' \<mapsto> ''xyz'',
                            ''scope'' \<mapsto> ''openid'', ''response_type'' \<mapsto> ''code'']\<rparr>"

section \<open>Properties\<close>

subsection \<open>Responses\<close>

declare strings_Split.simps [simp del]
declare object_members.simps [simp del]

lemma code_setOIDCResponseHeaders [simp]: "code (setOIDCResponseHeaders newResponse) = None"
  by (simp add: setOIDCResponseHeaders_def Header_Set_def newResponse_def)

lemma body_setOIDCResponseHeaders [simp]: "body (setOIDCResponseHeaders newResponse) = []"
  by (simp add: setOIDCResponseHeaders_def Header_Set_def newResponse_def)

lemma code_sendOIDCErrorResponse:
  "code w = None \<Longrightarrow> code (sendOIDCErrorResponse w msg status) = Some status"
  by (simp add: sendOIDCErrorResponse_def writeResponse_def Write_def WriteHeader_def)

lemma body_sendOIDCErrorResponse:
  \<open>body (sendOIDCErrorResponse w msg status) = body w @ ''{"error": "'' @ msg @ ''"}''\<close>
  by (simp add: sendOIDCErrorResponse_def writeResponse_def Write_def WriteHeader_def
      split: option.splits)

lemma code_writeErrorResponse:
  "code (writeErrorResponse newResponse status msg) = Some status"
  by (simp add: writeErrorResponse_def Write_def WriteHeader_def newResponse_def)

lemma code_writeResponse:
  "code w = None \<Longrightarrow> code (writeResponse w status data) = Some status"
  by (simp add: writeResponse_def Write_def WriteHeader_def)

lemma body_writeResponse:
  "body (writeResponse w status data) = body w @ data"
  by (simp add: writeResponse_def Write_def WriteHeader_def split: option.splits)

lemmas example_defs = emptyStore_def emptyRequest_def FormValue_def index_map_def

subsection \<open>The token endpoint rejects other grant types\<close>

text \<open>
  C4. A token request whose \<^verbatim>\<open>grant_type\<close> is not \<^verbatim>\<open>authorization_code\<close> is answered
  with status 400 and the body \<^verbatim>\<open>{"error": "unsupported grant type"}\<close>, which is the JSON
  object with the one member \<^verbatim>\<open>error\<close>; the store comes back as it was, its record
  of calls included: nothing was read and nothing written.
\<close>

theorem token_unsupported_grant_type:
  assumes "FormValue r ''grant_type'' \<noteq> ''authorization_code''"
  shows \<open>code (fst (oidcTokenEndpoint tok st r)) = Some 400
       \<and> body (fst (oidcTokenEndpoint tok st r)) = ''{"error": "unsupported grant type"}''
       \<and> json_Unmarshal (body (fst (oidcTokenEndpoint tok st r)))
           = Some [''error'' \<mapsto> ''unsupported grant type'']
       \<and> snd (oidcTokenEndpoint tok st r) = st\<close>
  using assms
  by (simp add: oidcTokenEndpoint_def Let_def code_sendOIDCErrorResponse
      body_sendOIDCErrorResponse json_Unmarshal_def skipSpace_def isSpace_def
      object_members.simps stringLiteral_def mapElem_def)

theorem token_unsupported_grant_type_witness:
  \<open>FormValue passwordGrant ''grant_type'' \<noteq> ''authorization_code''
   \<and> code (fst (oidcTokenEndpoint ''t1'' codeStore passwordGrant)) = Some 400
   \<and> body (fst (oidcTokenEndpoint ''t1'' codeStore passwordGrant))
       = ''{"error": "unsupported grant type"}''
   \<and> ops (snd (oidcTokenEndpoint ''t1'' codeStore passwordGrant)) = []\<close>
proof -
  have h: "FormValue passwordGrant ''grant_type'' \<noteq> ''authorization_code''"
    by (simp add: passwordGrant_def example_defs)
  have "ops codeStore = []"
    by (simp add: codeStore_def emptyStore_def)
  with h token_unsupported_grant_type [OF h, of "''t1''" codeStore] show ?thesis
    by simp
qed

subsection \<open>The token endpoint checks the redirect URI\<close>

lemma token_validation_failed:
  assumes "FormValue r ''grant_type'' = ''authorization_code''"
    and "kv st (getAuthCodeKeyPrefix (FormValue r ''code'')) = Some authState"
    and "kv st (getAuthStateKeyPrefix authState) = Some authRqstBytes"
    and "json_Unmarshal authRqstBytes = Some authRequest"
    and "index_map authRequest ''redirect_uri'' \<noteq> FormValue r ''redirect_uri''"
  shows "oidcTokenEndpoint tok st r =
           (sendOIDCErrorResponse (setOIDCResponseHeaders newResponse)
              ''request validation failed'' StatusInternalServerError,
            st\<lparr>ops := ops st @ [Get (getAuthCodeKeyPrefix (FormValue r ''code'')),
                                 Get (getAuthStateKeyPrefix authState)]\<rparr>)"
  using assms
  by (simp add: oidcTokenEndpoint_def Let_def store_Get_def)

text \<open>
  C5. When the code of a token request leads to a stored authorization request whose
  \<^verbatim>\<open>redirect_uri\<close> is not the one of the token request, the answer is status 500 with
  the error message \<^verbatim>\<open>request validation failed\<close>; the contents of the store are
  unchanged, and the only calls made to it are the two reads: no access token is stored.
\<close>

theorem token_redirect_uri_mismatch:
  assumes "FormValue r ''grant_type'' = ''authorization_code''"
    and "kv st (getAuthCodeKeyPrefix (FormValue r ''code'')) = Some authState"
    and "kv st (getAuthStateKeyPrefix authState) = Some authRqstBytes"
    and "json_Unmarshal authRqstBytes = Some authRequest"
    and "index_map authRequest ''redirect_uri'' \<noteq> FormValue r ''redirect_uri''"
  shows \<open>code (fst (oidcTokenEndpoint tok st r)) = Some 500
       \<and> body (fst (oidcTokenEndpoint tok st r)) = ''{"error": "request validation failed"}''
       \<and> kv (snd (oidcTokenEndpoint tok st r)) = kv st
       \<and> ops (snd (oidcTokenEndpoint tok st r))
           = ops st @ [Get (getAuthCodeKeyPrefix (FormValue r ''code'')),
                       Get (getAuthStateKeyPrefix authState)]\<close>
  by (simp add: token_validation_failed [OF assms] code_sendOIDCErrorResponse
      body_sendOIDCErrorResponse)

lemma authRecord_unmarshal:
  "json_Unmarshal authRecord =
     Some [''claims'' \<mapsto> ''{}'', ''client_id'' \<mapsto> ''wallet'',
           ''redirect_uri'' \<mapsto> ''https://wallet.example/cb'',
           ''response_type'' \<mapsto> ''code'', ''scope'' \<mapsto> ''openid'', ''state'' \<mapsto> ''xyz'']"
  by (simp add: authRecord_def json_Marshal_strings_def json_Marshal_def json_string_def
      htmlSafeSet_def escapeByte_def json_Unmarshal_def skipSpace_def isSpace_def
      object_members.simps stringLiteral_def mapElem_def)

theorem token_redirect_uri_mismatch_witness:
  \<open>FormValue (tokenRequest ''https://other.example/cb'') ''grant_type'' = ''authorization_code''
   \<and> kv codeStore
         (getAuthCodeKeyPrefix (FormValue (tokenRequest ''https://other.example/cb'') ''code''))
       = Some ''s1''
   \<and> kv codeStore (getAuthStateKeyPrefix ''s1'') = Some authRecord
   \<and> index_map [''claims'' \<mapsto> ''{}'', ''client_id'' \<mapsto> ''wallet'',
           ''redirect_uri'' \<mapsto> ''https://wallet.example/cb'',
           ''response_type'' \<mapsto> ''code'', ''scope'' \<mapsto> ''openid'', ''state'' \<mapsto> ''xyz'']
         ''redirect_uri''
       \<noteq> FormValue (tokenRequest ''https://other.example/cb'') ''redirect_uri''
   \<and> code (fst (oidcTokenEndpoint ''t1'' codeStore (tokenRequest ''https://other.example/cb'')))
       = Some 500
   \<and> kv (snd (oidcTokenEndpoint ''t1'' codeStore (tokenRequest ''https://other.example/cb'')))
       = kv codeStore\<close>
proof -
  let ?r = "tokenRequest ''https://other.example/cb''"
  have 1: "FormValue ?r ''grant_type'' = ''authorization_code''"
    by (simp add: tokenRequest_def example_defs)
  have 2: "kv codeStore (getAuthCodeKeyPrefix (FormValue ?r ''code'')) = Some ''s1''"
    by (simp add: tokenRequest_def codeStore_def getAuthCodeKeyPrefix_def example_defs)
  have 3: "kv codeStore (getAuthStateKeyPrefix ''s1'') = Some authRecord"
    by (simp add: codeStore_def getAuthStateKeyPrefix_def example_defs)
  have 5: "index_map [''claims'' \<mapsto> ''{}'', ''client_id'' \<mapsto> ''wallet'',
           ''redirect_uri'' \<mapsto> ''https://wallet.example/cb'',
           ''response_type'' \<mapsto> ''code'', ''scope'' \<mapsto> ''openid'', ''state'' \<mapsto> ''xyz'']
         ''redirect_uri''
       \<noteq> FormValue ?r ''redirect_uri''"
    by (simp add: tokenRequest_def example_defs)
  show ?thesis
    using token_redirect_uri_mismatch [OF 1 2 3 authRecord_unmarshal 5, of "''t1''"] 1 2 3 5
    by simp
qed

subsection \<open>The credential endpoint and an unknown token\<close>

lemma strings_Split_no_sep:
  "strings_Index t sep = None \<Longrightarrow> strings_Split t sep = [t]"
  by (simp add: strings_Split.simps)

lemma strings_Index_prefix:
  "sep \<noteq> [] \<Longrightarrow> strings_Index (sep @ t) sep = Some 0"
  by (cases sep) simp_all

lemma strings_Split_sep_append:
  "sep \<noteq> [] \<Longrightarrow> strings_Split (sep @ t) sep = [] # strings_Split t sep"
  by (subst strings_Split.simps) (simp add: strings_Index_prefix)

lemma bearer_header_split:
  "strings_Index tok ''Bearer '' = None \<Longrightarrow>
   strings_Split (''Bearer '' @ tok) ''Bearer '' = [[], tok]"
  using strings_Split_sep_append [of "''Bearer ''" tok]
  by (simp add: strings_Split_no_sep)

text \<open>
  C10. A credential request whose \<^verbatim>\<open>Authorization\<close> header is \<^verbatim>\<open>Bearer\<close>, a space and a
  non-empty token (without a further \<^verbatim>\<open>"Bearer "\<close> inside it), for a token that has no
  \<^verbatim>\<open>access_token_\<close> entry in the store, is answered with status 400 and the body
  \<^verbatim>\<open>{"error": "unsupported format requested"}\<close>: the message of the format check.
\<close>

theorem credential_unknown_token:
  assumes "index_map (headers r) ''Authorization'' = ''Bearer '' @ tok"
    and "tok \<noteq> []"
    and "strings_Index tok ''Bearer '' = None"
    and "kv st (getAccessTokenKeyPrefix tok) = None"
  shows \<open>code (fst (oidcCredentialEndpoint issue st r)) = Some 400
       \<and> body (fst (oidcCredentialEndpoint issue st r))
           = ''{"error": "unsupported format requested"}''\<close>
  using assms bearer_header_split [OF assms(3)]
  by (simp add: oidcCredentialEndpoint_def Let_def store_Get_def
      code_sendOIDCErrorResponse body_sendOIDCErrorResponse)

theorem credential_unknown_token_witness:
  \<open>index_map (headers (credentialRequest ''Bearer nope'')) ''Authorization'' = ''Bearer '' @ ''nope''
   \<and> ''nope'' \<noteq> []
   \<and> strings_Index ''nope'' ''Bearer '' = None
   \<and> kv tokenStore (getAccessTokenKeyPrefix ''nope'') = None
   \<and> code (fst (oidcCredentialEndpoint Signed tokenStore (credentialRequest ''Bearer nope'')))
       = Some 400
   \<and> body (fst (oidcCredentialEndpoint Signed tokenStore (credentialRequest ''Bearer nope'')))
       = ''{"error": "unsupported format requested"}''\<close>
proof -
  have 1: "index_map (headers (credentialRequest ''Bearer nope'')) ''Authorization''
             = ''Bearer '' @ ''nope''"
    by (simp add: credentialRequest_def example_defs)
  have 2: "''nope'' \<noteq> []" by simp
  have 3: "strings_Index ''nope'' ''Bearer '' = None" by simp
  have 4: "kv tokenStore (getAccessTokenKeyPrefix ''nope'') = None"
    by (simp add: tokenStore_def getAccessTokenKeyPrefix_def example_defs)
  show ?thesis
    using credential_unknown_token [OF 1 2 3 4, of Signed] 1 3 4 by simp
qed

subsection \<open>Authorize validates its parameters\<close>

text \<open>
  C3. When \<^verbatim>\<open>claims\<close> or \<^verbatim>\<open>redirect_uri\<close> is empty after \<^verbatim>\<open>url.PathUnescape\<close>, or
  \<^verbatim>\<open>client_id\<close> or \<^verbatim>\<open>state\<close> is empty, the authorize request is answered with status
  400 and the store comes back as it was, with no call to it.
\<close>

theorem authorize_missing_parameter:
  assumes "url_PathUnescape (FormValue r ''claims'') = Some []
         \<or> url_PathUnescape (FormValue r ''redirect_uri'') = Some []
         \<or> FormValue r ''client_id'' = []
         \<or> FormValue r ''state'' = []"
  shows "code (fst (oidcAuthorize now authState st r)) = Some 400
       \<and> snd (oidcAuthorize now authState st r) = st"
  using assms
  by (auto simp: oidcAuthorize_def Let_def code_writeErrorResponse split: option.splits)

theorem authorize_missing_parameter_witness:
  "FormValue authorizeNoClient ''client_id'' = []
   \<and> code (fst (oidcAuthorize 0 ''s1'' emptyStore authorizeNoClient)) = Some 400
   \<and> snd (oidcAuthorize 0 ''s1'' emptyStore authorizeNoClient) = emptyStore"
proof -
  have h: "FormValue authorizeNoClient ''client_id'' = []"
    by (simp add: authorizeNoClient_def example_defs)
  then have "url_PathUnescape (FormValue authorizeNoClient ''claims'') = Some []
         \<or> url_PathUnescape (FormValue authorizeNoClient ''redirect_uri'') = Some []
         \<or> FormValue authorizeNoClient ''client_id'' = []
         \<or> FormValue authorizeNoClient ''state'' = []"
    by simp
  from authorize_missing_parameter [OF this, of 0 "''s1''" emptyStore] h show ?thesis
    by simp
qed

subsection \<open>A successful token request\<close>

declare digits10.simps [simp del]

lemma token_body:
  \<open>json_Marshal [(''token_type'', IString ''Bearer''), (''access_token'', IString tok),
                 (''expires_in'', IInt64 (3600 * time_Second))]
   = ''{"access_token":'' @ json_string tok @ '',"expires_in":3600000000000,"token_type":"Bearer"}''\<close>
  by (simp add: json_Marshal_def json_string_def htmlSafeSet_def strconv_Itoa_def time_Second_def
      digits10.simps)

lemma token_ok:
  assumes "FormValue r ''grant_type'' = ''authorization_code''"
    and "kv st (getAuthCodeKeyPrefix (FormValue r ''code'')) = Some authState"
    and "kv st (getAuthStateKeyPrefix authState) = Some authRqstBytes"
    and "json_Unmarshal authRqstBytes = Some authRequest"
    and "index_map authRequest ''redirect_uri'' = FormValue r ''redirect_uri''"
    and "\<not> put_err st (getAccessTokenKeyPrefix tok)"
  shows \<open>oidcTokenEndpoint tok st r =
           (writeResponse (setOIDCResponseHeaders newResponse) StatusOK
              (''{"access_token":'' @ json_string tok
                 @ '',"expires_in":3600000000000,"token_type":"Bearer"}''),
            st\<lparr>kv := (kv st)(getAccessTokenKeyPrefix tok \<mapsto> index_map (vars r) ''id''),
               ops := ops st @ [Get (getAuthCodeKeyPrefix (FormValue r ''code'')),
                                Get (getAuthStateKeyPrefix authState),
                                Put (getAccessTokenKeyPrefix tok) (index_map (vars r) ''id'')]\<rparr>)\<close>
  using assms
  by (simp add: oidcTokenEndpoint_def Let_def store_Get_def store_Put_def token_body)

text \<open>
  C1. The token request with the code \<^verbatim>\<open>c1\<close>, the redirect URI stored for it and the
  grant type \<^verbatim>\<open>authorization_code\<close> succeeds: status 200, the token \<^verbatim>\<open>t1\<close> stored under
  \<^verbatim>\<open>access_token_t1\<close> for the issuer of the path, and a body with \<^verbatim>\<open>token_type\<close>
  \<^verbatim>\<open>Bearer\<close> and the token. Its \<^verbatim>\<open>expires_in\<close> is the number 3600000000000: the duration
  \<^verbatim>\<open>3600 * time.Second\<close> is marshalled as its count of nanoseconds, not as 3600.
\<close>

theorem token_expires_in_nanoseconds:
  \<open>code (fst (oidcTokenEndpoint ''t1'' codeStore (tokenRequest ''https://wallet.example/cb'')))
     = Some 200
   \<and> body (fst (oidcTokenEndpoint ''t1'' codeStore (tokenRequest ''https://wallet.example/cb'')))
     = ''{"access_token":"t1","expires_in":3600000000000,"token_type":"Bearer"}''
   \<and> kv (snd (oidcTokenEndpoint ''t1'' codeStore (tokenRequest ''https://wallet.example/cb'')))
        ''access_token_t1'' = Some ''issuer1''\<close>
proof -
  let ?r = "tokenRequest ''https://wallet.example/cb''"
  have 1: "FormValue ?r ''grant_type'' = ''authorization_code''"
    by (simp add: tokenRequest_def example_defs)
  have 2: "kv codeStore (getAuthCodeKeyPrefix (FormValue ?r ''code'')) = Some ''s1''"
    by (simp add: tokenRequest_def codeStore_def getAuthCodeKeyPrefix_def example_defs)
  have 3: "kv codeStore (getAuthStateKeyPrefix ''s1'') = Some authRecord"
    by (simp add: codeStore_def getAuthStateKeyPrefix_def example_defs)
  have 5: "index_map [''claims'' \<mapsto> ''{}'', ''client_id'' \<mapsto> ''wallet'',
           ''redirect_uri'' \<mapsto> ''https://wallet.example/cb'',
           ''response_type'' \<mapsto> ''code'', ''scope'' \<mapsto> ''openid'', ''state'' \<mapsto> ''xyz'']
         ''redirect_uri''
       = FormValue ?r ''redirect_uri''"
    by (simp add: tokenRequest_def example_defs)
  have 6: "\<not> put_err codeStore (getAccessTokenKeyPrefix ''t1'')"
    by (simp add: codeStore_def emptyStore_def)
  have 7: "index_map (vars ?r) ''id'' = ''issuer1''"
    by (simp add: tokenRequest_def example_defs)
  show ?thesis
    by (simp add: token_ok [OF 1 2 3 authRecord_unmarshal 5 6] 7 code_writeResponse
        body_writeResponse getAccessTokenKeyPrefix_def json_string_def htmlSafeSet_def)
qed

subsection \<open>A code can be exchanged more than once\<close>

lemma sendAuthorizeResponse_ok:
  assumes "reqCookies r ''state'' = Some authState"
    and "kv st (getAuthStateKeyPrefix authState) = Some authRqstBytes"
    and "json_Unmarshal authRqstBytes = Some authRequest"
    and "authRequest ''redirect_uri'' = Some redirectURI"
    and "authRequest ''state'' = Some state"
    and "\<not> put_err st (getAuthCodeKeyPrefix authCode)"
  shows "oidcSendAuthorizeResponse authCode st r =
           (http_Redirect (redirectURI @ ''?code='' @ authCode @ ''&state='' @ state)
              StatusFound newResponse,
            st\<lparr>kv := (kv st)(getAuthCodeKeyPrefix authCode \<mapsto> authState),
               ops := ops st @ [Get (getAuthStateKeyPrefix authState),
                                Put (getAuthCodeKeyPrefix authCode) authState]\<rparr>)"
  using assms
  by (simp add: oidcSendAuthorizeResponse_def Let_def store_Get_def store_Put_def)

lemma code_http_Redirect: "code (http_Redirect url c newResponse) = Some c"
  by (simp add: http_Redirect_def WriteHeader_def newResponse_def)

lemma redirect_http_Redirect: "redirect (http_Redirect url c newResponse) = Some url"
  by (simp add: http_Redirect_def WriteHeader_def newResponse_def)

text \<open>
  C7. Let \<^verbatim>\<open>authorize-request\<close> find the stored authorization request of its cookie and let
  the store accept the writes. Then it redirects (302) with a fresh code, and a token
  request with that code, the stored redirect URI and the grant type
  \<^verbatim>\<open>authorization_code\<close> is answered with 200 and a body of token type \<^verbatim>\<open>Bearer\<close> with
  the new access token; a second token request with the same code is answered with 200
  and its own token in the same way, and the code is still in the store after it.
\<close>

theorem code_exchanged_twice:
  assumes "reqCookies r0 ''state'' = Some authState"
    and "kv st0 (getAuthStateKeyPrefix authState) = Some authRqstBytes"
    and "json_Unmarshal authRqstBytes = Some authRequest"
    and "authRequest ''redirect_uri'' = Some redirectURI"
    and "authRequest ''state'' = Some state"
    and "\<not> put_err st0 (getAuthCodeKeyPrefix authCode)"
    and "\<not> put_err st0 (getAccessTokenKeyPrefix tok1)"
    and "\<not> put_err st0 (getAccessTokenKeyPrefix tok2)"
    and "FormValue r1 ''grant_type'' = ''authorization_code''"
    and "FormValue r1 ''code'' = authCode"
    and "FormValue r1 ''redirect_uri'' = redirectURI"
    and "FormValue r2 ''grant_type'' = ''authorization_code''"
    and "FormValue r2 ''code'' = authCode"
    and "FormValue r2 ''redirect_uri'' = redirectURI"
    and "oidcSendAuthorizeResponse authCode st0 r0 = (w0, st1)"
    and "oidcTokenEndpoint tok1 st1 r1 = (w1, st2)"
    and "oidcTokenEndpoint tok2 st2 r2 = (w2, st3)"
  shows \<open>code w0 = Some 302
       \<and> redirect w0 = Some (redirectURI @ ''?code='' @ authCode @ ''&state='' @ state)
       \<and> code w1 = Some 200
       \<and> body w1 = ''{"access_token":'' @ json_string tok1
                      @ '',"expires_in":3600000000000,"token_type":"Bearer"}''
       \<and> code w2 = Some 200
       \<and> body w2 = ''{"access_token":'' @ json_string tok2
                      @ '',"expires_in":3600000000000,"token_type":"Bearer"}''
       \<and> kv st3 (getAuthCodeKeyPrefix authCode) = Some authState\<close>
proof -
  have s1: "st1 = st0\<lparr>kv := (kv st0)(getAuthCodeKeyPrefix authCode \<mapsto> authState),
               ops := ops st0 @ [Get (getAuthStateKeyPrefix authState),
                                Put (getAuthCodeKeyPrefix authCode) authState]\<rparr>"
    and w0: "w0 = http_Redirect (redirectURI @ ''?code='' @ authCode @ ''&state='' @ state)
              StatusFound newResponse"
    using sendAuthorizeResponse_ok [OF assms(1-6)] assms(15) by simp_all
  have c1: "kv st1 (getAuthCodeKeyPrefix (FormValue r1 ''code'')) = Some authState"
    by (simp add: s1 assms(10))
  have a1: "kv st1 (getAuthStateKeyPrefix authState) = Some authRqstBytes"
    using assms(2) by (simp add: s1 getAuthStateKeyPrefix_def getAuthCodeKeyPrefix_def)
  have i1: "index_map authRequest ''redirect_uri'' = FormValue r1 ''redirect_uri''"
    by (simp add: index_map_def assms(4) assms(11))
  have p1: "\<not> put_err st1 (getAccessTokenKeyPrefix tok1)"
    using assms(7) by (simp add: s1)
  note t1 = token_ok [OF assms(9) c1 a1 assms(3) i1 p1]
  have s2: "st2 = st1\<lparr>kv := (kv st1)(getAccessTokenKeyPrefix tok1 \<mapsto> index_map (vars r1) ''id''),
               ops := ops st1 @ [Get (getAuthCodeKeyPrefix (FormValue r1 ''code'')),
                                Get (getAuthStateKeyPrefix authState),
                                Put (getAccessTokenKeyPrefix tok1) (index_map (vars r1) ''id'')]\<rparr>"
    and w1: \<open>w1 = writeResponse (setOIDCResponseHeaders newResponse) StatusOK
              (''{"access_token":'' @ json_string tok1
                 @ '',"expires_in":3600000000000,"token_type":"Bearer"}'')\<close>
    using t1 assms(16) by simp_all
  have c2: "kv st2 (getAuthCodeKeyPrefix (FormValue r2 ''code'')) = Some authState"
    by (simp add: s2 s1 assms(13) getAccessTokenKeyPrefix_def getAuthCodeKeyPrefix_def)
  have a2: "kv st2 (getAuthStateKeyPrefix authState) = Some authRqstBytes"
    using a1 by (simp add: s2 getAuthStateKeyPrefix_def getAccessTokenKeyPrefix_def)
  have i2: "index_map authRequest ''redirect_uri'' = FormValue r2 ''redirect_uri''"
    by (simp add: index_map_def assms(4) assms(14))
  have p2: "\<not> put_err st2 (getAccessTokenKeyPrefix tok2)"
    using assms(8) by (simp add: s2 s1)
  note t2 = token_ok [OF assms(12) c2 a2 assms(3) i2 p2]
  have s3: "kv st3 = (kv st2)(getAccessTokenKeyPrefix tok2 \<mapsto> index_map (vars r2) ''id'')"
    and w2: \<open>w2 = writeResponse (setOIDCResponseHeaders newResponse) StatusOK
              (''{"access_token":'' @ json_string tok2
                 @ '',"expires_in":3600000000000,"token_type":"Bearer"}'')\<close>
    using t2 assms(17) by auto
  have k3: "kv st3 (getAuthCodeKeyPrefix authCode) = Some authState"
    using c2 by (simp add: s3 assms(13) getAccessTokenKeyPrefix_def getAuthCodeKeyPrefix_def)
  show ?thesis
    by (simp add: w0 w1 w2 k3 code_http_Redirect redirect_http_Redirect code_writeResponse
        body_writeResponse)
qed

theorem code_exchanged_twice_witness:
  \<open>reqCookies cookieRequest ''state'' = Some ''s1''
   \<and> kv stateStore (getAuthStateKeyPrefix ''s1'') = Some authRecord
   \<and> \<not> put_err stateStore (getAuthCodeKeyPrefix ''c1'')
   \<and> \<not> put_err stateStore (getAccessTokenKeyPrefix ''t1'')
   \<and> \<not> put_err stateStore (getAccessTokenKeyPrefix ''t2'')
   \<and> FormValue (tokenRequest ''https://wallet.example/cb'') ''grant_type'' = ''authorization_code''
   \<and> FormValue (tokenRequest ''https://wallet.example/cb'') ''code'' = ''c1''
   \<and> FormValue (tokenRequest ''https://wallet.example/cb'') ''redirect_uri''
       = ''https://wallet.example/cb''
   \<and> code (fst (oidcSendAuthorizeResponse ''c1'' stateStore cookieRequest)) = Some 302
   \<and> code (fst (oidcTokenEndpoint ''t1''
               (snd (oidcSendAuthorizeResponse ''c1'' stateStore cookieRequest))
               (tokenRequest ''https://wallet.example/cb''))) = Some 200
   \<and> code (fst (oidcTokenEndpoint ''t2''
               (snd (oidcTokenEndpoint ''t1''
                  (snd (oidcSendAuthorizeResponse ''c1'' stateStore cookieRequest))
                  (tokenRequest ''https://wallet.example/cb'')))
               (tokenRequest ''https://wallet.example/cb''))) = Some 200\<close>
proof -
  let ?r = "tokenRequest ''https://wallet.example/cb''"
  let ?m = "[''claims'' \<mapsto> ''{}'', ''client_id'' \<mapsto> ''wallet'',
             ''redirect_uri'' \<mapsto> ''https://wallet.example/cb'',
             ''response_type'' \<mapsto> ''code'', ''scope'' \<mapsto> ''openid'', ''state'' \<mapsto> ''xyz'']"
  let ?p0 = "oidcSendAuthorizeResponse ''c1'' stateStore cookieRequest"
  let ?p1 = "oidcTokenEndpoint ''t1'' (snd ?p0) ?r"
  let ?p2 = "oidcTokenEndpoint ''t2'' (snd ?p1) ?r"
  have 1: "reqCookies cookieRequest ''state'' = Some ''s1''"
    by (simp add: cookieRequest_def emptyRequest_def)
  have 2: "kv stateStore (getAuthStateKeyPrefix ''s1'') = Some authRecord"
    by (simp add: stateStore_def getAuthStateKeyPrefix_def emptyStore_def)
  have 4: "?m ''redirect_uri'' = Some ''https://wallet.example/cb''" by simp
  have 5: "?m ''state'' = Some ''xyz''" by simp
  have 6: "\<not> put_err stateStore (getAuthCodeKeyPrefix ''c1'')"
    and 7: "\<not> put_err stateStore (getAccessTokenKeyPrefix ''t1'')"
    and 8: "\<not> put_err stateStore (getAccessTokenKeyPrefix ''t2'')"
    by (simp_all add: stateStore_def emptyStore_def)
  have 9: "FormValue ?r ''grant_type'' = ''authorization_code''"
    and 10: "FormValue ?r ''code'' = ''c1''"
    and 11: "FormValue ?r ''redirect_uri'' = ''https://wallet.example/cb''"
    by (simp_all add: tokenRequest_def example_defs)
  have e0: "?p0 = (fst ?p0, snd ?p0)" and e1: "?p1 = (fst ?p1, snd ?p1)"
    and e2: "?p2 = (fst ?p2, snd ?p2)"
    by simp_all
  show ?thesis
    using code_exchanged_twice [OF 1 2 authRecord_unmarshal 4 5 6 7 8 9 10 11 9 10 11 e0 e1 e2]
      1 2 6 7 8 9 10 11
    by simp
qed

subsection \<open>The form of the Authorization header\<close>

text \<open>
  C2. The header \<^verbatim>\<open>xBearer abc\<close> is not of the form \<^verbatim>\<open>Bearer {token}\<close>, yet
  \<^verbatim>\<open>strings.Split\<close> cuts it into two parts and the credential endpoint goes on with the
  token \<^verbatim>\<open>abc\<close>: it looks the token up, reads the credential and answers 200.
\<close>

theorem credential_header_with_prefix_accepted:
  "strings_Split ''xBearer abc'' ''Bearer '' = [''x'', ''abc'']
   \<and> code (fst (oidcCredentialEndpoint Signed tokenStore (credentialRequest ''xBearer abc'')))
       = Some 200
   \<and> ops (snd (oidcCredentialEndpoint Signed tokenStore (credentialRequest ''xBearer abc'')))
       = [Get ''access_token_abc'', Get ''cred_store_issuer1'']"
proof -
  have split: "strings_Split ''xBearer abc'' ''Bearer '' = [''x'', ''abc'']"
    by (simp add: strings_Split.simps)
  show ?thesis
    by (simp add: split oidcCredentialEndpoint_def Let_def credentialRequest_def tokenStore_def
        example_defs store_Get_def getAccessTokenKeyPrefix_def getCredStoreKeyPrefix_def
        code_writeResponse)
qed

subsection \<open>The issuer configuration is persisted\<close>

lemma key_neq_cred_store_key: "key \<noteq> getCredStoreKeyPrefix key"
proof
  assume "key = getCredStoreKeyPrefix key"
  then have "length key = length (getCredStoreKeyPrefix key)" by simp
  then show False by (simp add: getCredStoreKeyPrefix_def)
qed

lemma saveIssuanceConfig_ok:
  assumes "saveIssuanceConfig st key issuerConf credential = (True, st')"
  shows "kv st' key = Some issuerConf \<and> kv st' (getCredStoreKeyPrefix key) = Some credential"
  using assms key_neq_cred_store_key [of key]
  by (auto simp: saveIssuanceConfig_def store_Put_def split: if_splits)

text \<open>
  C8. When \<^verbatim>\<open>initiateIssuance\<close> answers 200, with \<open>key\<close> the generated UUID and
  \<open>issuer = issuerURL + "/" + key\<close>: the document stored under \<open>key\<close> is the marshalled
  configuration whose issuer is \<open>issuer\<close> and whose authorization, token and credential
  endpoints are \<open>issuer\<close> followed by \<^verbatim>\<open>/oidc/authorize\<close>, \<^verbatim>\<open>/oidc/token\<close> and
  \<^verbatim>\<open>/oidc/credential\<close>; and the credential bytes of the request are stored under
  \<^verbatim>\<open>cred_store_\<close> followed by \<open>key\<close>.
\<close>

theorem initiateIssuance_persists:
  assumes "initiateIssuance marshalIndent parseWalletURL walletURL key st decoded = (w, st')"
    and "code w = Some 200"
  shows "\<exists>req issuerConf.
           decoded = Some req
         \<and> marshalIndent
             \<lparr>Issuer = IssuerURL req @ ''/'' @ key,
              AuthorizationEndpoint = (IssuerURL req @ ''/'' @ key) @ ''/oidc/authorize'',
              TokenEndpoint = (IssuerURL req @ ''/'' @ key) @ ''/oidc/token'',
              CredentialEndpoint = (IssuerURL req @ ''/'' @ key) @ ''/oidc/credential'',
              CredentialManifests = CredManifest req\<rparr> = Some issuerConf
         \<and> kv st' key = Some issuerConf
         \<and> kv st' (getCredStoreKeyPrefix key) = Some (Credential req)"
proof (cases decoded)
  case None
  with assms show ?thesis
    by (auto simp: initiateIssuance_def code_writeErrorResponse)
next
  case (Some req)
  let ?conf = "\<lparr>Issuer = IssuerURL req @ ''/'' @ key,
              AuthorizationEndpoint = (IssuerURL req @ ''/'' @ key) @ ''/oidc/authorize'',
              TokenEndpoint = (IssuerURL req @ ''/'' @ key) @ ''/oidc/token'',
              CredentialEndpoint = (IssuerURL req @ ''/'' @ key) @ ''/oidc/credential'',
              CredentialManifests = CredManifest req\<rparr>"
  show ?thesis
  proof (cases "marshalIndent ?conf")
    case None
    with Some assms show ?thesis
      by (auto simp: initiateIssuance_def Let_def code_writeErrorResponse)
  next
    case conf: (Some issuerConf)
    obtain ok st1 where save: "saveIssuanceConfig st key issuerConf (Credential req) = (ok, st1)"
      by (cases "saveIssuanceConfig st key issuerConf (Credential req)")
    with Some conf assms have "ok" and "st' = st1"
      by (auto simp: initiateIssuance_def Let_def code_writeErrorResponse
          split: if_splits option.splits)
    with save saveIssuanceConfig_ok [of st key issuerConf "Credential req" st1] Some conf
    show ?thesis by simp
  qed
qed

theorem initiateIssuance_persists_witness:
  \<open>code (fst (initiateIssuance showConfiguration showWalletURL ''https://wallet.example'' ''k1''
               emptyStore (Some issuanceRequest))) = Some 200
   \<and> kv (snd (initiateIssuance showConfiguration showWalletURL ''https://wallet.example'' ''k1''
               emptyStore (Some issuanceRequest))) ''cred_store_k1'' = Some ''{"id":"vc1"}''\<close>
proof -
  let ?p = "initiateIssuance showConfiguration showWalletURL ''https://wallet.example'' ''k1''
              emptyStore (Some issuanceRequest)"
  have c: "code (fst ?p) = Some 200"
    by (simp add: initiateIssuance_def Let_def issuanceRequest_def showConfiguration_def
        showWalletURL_def saveIssuanceConfig_def store_Put_def emptyStore_def
        code_writeResponse newResponse_def)
  have e: "?p = (fst ?p, snd ?p)" by simp
  from initiateIssuance_persists [OF e c] c show ?thesis
    by (auto simp: getCredStoreKeyPrefix_def issuanceRequest_def)
qed

subsection \<open>The context override of a prepared credential\<close>

lemma appendStrings_strings:
  "appendStrings result (map AString ctx) = Return (result @ ctx)"
  by (induction ctx arbitrary: result) simp_all

lemma getCustomContext_override:
  "map_of customCtx ''@context'' = Some (ASlice (map AString ctx)) \<Longrightarrow>
   getCustomContext existingContext customCtx = Return ctx"
  by (simp add: getCustomContext_def appendStrings_strings)

text \<open>
  C9 as stated fails. For the scope \<^verbatim>\<open>subject_data\<close> the credential gets the two
  fixed contexts, not the override \<^verbatim>\<open>["a","b"]\<close>; an \<^verbatim>\<open>@context\<close> array with an element
  that is not a string makes the type assertion panic; and without the issuer profile no
  credential is prepared.
\<close>

theorem prepareCredential_context_counterexample:
  "contextOf (prepareCredential (Some demoProfile) 0 ''u1'' subjectWithContext
                ''subject_data'' ''demo'')
     = Some [''https://www.w3.org/2018/credentials/v1'', ''https://w3id.org/citizenship/v1'']
   \<and> contextOf (prepareCredential (Some demoProfile) 0 ''u1'' subjectWithContext
                ''subject_data'' ''demo'') \<noteq> Some [''a'', ''b'']
   \<and> prepareCredential (Some demoProfile) 0 ''u1'' subjectWithInlineContext
                ''VerifiedEmployee'' ''demo'' = Panic
   \<and> contextOf (prepareCredential None 0 ''u1'' subjectWithContext
                ''VerifiedEmployee'' ''demo'') = None"
  by (simp add: prepareCredential_def Let_def subjectWithContext_def subjectWithInlineContext_def
      getCustomContext_def contextOf_def externalScopeQueryParam_def credentialContext_def
      citizenshipContext_def index_any_def)

text \<open>
  C9, amended. When the \<^verbatim>\<open>vcmetadata\<close> entry of the subject is a map whose
  \<^verbatim>\<open>@context\<close> is an array of strings, the scope is not \<^verbatim>\<open>subject_data\<close> and the
  issuer profile is retrieved, \<^verbatim>\<open>prepareCredential\<close> prepares a credential whose
  \<^verbatim>\<open>@context\<close> is exactly the strings of that array, in their order: the default
  contexts are replaced.
\<close>

theorem prepareCredential_context_override:
  assumes "map_of subject ''vcmetadata'' = Some (AMap vcMetaData)"
    and "map_of vcMetaData ''@context'' = Some (ASlice (map AString ctx))"
    and "scope \<noteq> externalScopeQueryParam"
  shows "contextOf (prepareCredential (Some profile) now newUUID subject scope vcsProfile)
           = Some ctx"
  using assms
  by (simp add: prepareCredential_def Let_def contextOf_def update_conv'
      getCustomContext_override [OF assms(2)] split: option.splits any.splits)

theorem prepareCredential_context_override_witness:
  "map_of subjectWithContext ''vcmetadata''
     = Some (AMap [(''@context'', ASlice (map AString [''a'', ''b'']))])
   \<and> map_of [(''@context'', ASlice (map AString [''a'', ''b'']) :: unit any)] ''@context''
     = Some (ASlice (map AString [''a'', ''b'']))
   \<and> ''VerifiedEmployee'' \<noteq> externalScopeQueryParam
   \<and> contextOf (prepareCredential (Some demoProfile) 0 ''u1'' subjectWithContext
                  ''VerifiedEmployee'' ''demo'') = Some [''a'', ''b'']"
proof -
  have 1: "map_of subjectWithContext ''vcmetadata''
             = Some (AMap [(''@context'', ASlice (map AString [''a'', ''b'']))])"
    by (simp add: subjectWithContext_def)
  have 2: "map_of [(''@context'', ASlice (map AString [''a'', ''b'']) :: unit any)] ''@context''
             = Some (ASlice (map AString [''a'', ''b'']))"
    by simp
  have 3: "''VerifiedEmployee'' \<noteq> externalScopeQueryParam"
    by (simp add: externalScopeQueryParam_def)
  from prepareCredential_context_override [OF 1 2 3, of demoProfile 0 "''u1''" "''demo''"] 1 2 3
  show ?thesis by simp
qed

subsection \<open>A map of strings survives marshalling and unmarshalling\<close>

lemma decode_shape:
  assumes "utf8_DecodeRune (c # cs) = (r, n)" and "0x80 \<le> (of_char c :: nat)"
    and "\<not> (r = RuneError \<and> n = 1)"
  shows "(\<exists>c1 t. cs = c1 # t \<and> n = 2 \<and> utf8_seq2 c c1
            \<and> r = (of_char c mod 32) * 64 + of_char c1 mod 64)
       \<or> (\<exists>c1 c2 t. cs = c1 # c2 # t \<and> n = 3 \<and> utf8_seq3 c c1 c2
            \<and> r = (of_char c mod 16) * 4096 + (of_char c1 mod 64) * 64 + of_char c2 mod 64)
       \<or> (\<exists>c1 c2 c3 t. cs = c1 # c2 # c3 # t \<and> n = 4 \<and> utf8_seq4 c c1 c2 c3
            \<and> r = (of_char c mod 8) * 262144 + (of_char c1 mod 64) * 4096
                  + (of_char c2 mod 64) * 64 + of_char c3 mod 64)"
proof (cases cs)
  case Nil
  with assms show ?thesis
    by (auto simp: utf8_DecodeRune_def utf8_first_def Let_def split: if_splits)
next
  case (Cons c1 t1)
  note cs1 = this
  show ?thesis
  proof (cases t1)
    case Nil
    with cs1 assms show ?thesis
      by (auto simp: utf8_DecodeRune_def utf8_first_def Let_def utf8_seq2_def utf8_cont_def
          split: if_splits)
  next
    case (Cons c2 t2)
    note cs2 = this
    show ?thesis
    proof (cases t2)
      case Nil
      with cs1 cs2 assms show ?thesis
        by (auto simp: utf8_DecodeRune_def utf8_first_def Let_def utf8_seq2_def utf8_seq3_def utf8_cont_def
            split: if_splits)
    next
      case (Cons c3 t3)
      with cs1 cs2 assms show ?thesis
        by (auto simp: utf8_DecodeRune_def utf8_first_def Let_def utf8_seq2_def utf8_seq3_def utf8_seq4_def
            utf8_cont_def split: if_splits)
    qed
  qed
qed

lemma digit_div: "x < m \<Longrightarrow> (a * m + x) div m = (a::nat)"
  by simp

lemma digit_mod: "x < m \<Longrightarrow> (a * m + x) mod m = (x::nat)"
  by simp

lemma lead2_mod: "a < 32 \<Longrightarrow> (0xC0 + a) mod 32 = (a::nat)"
  using mod_mult_self1 [of a 6 32] by (simp add: add.commute)

lemma lead3_mod: "a < 16 \<Longrightarrow> (0xE0 + a) mod 16 = (a::nat)"
  using mod_mult_self1 [of a 14 16] by (simp add: add.commute)

lemma lead4_mod: "a < 8 \<Longrightarrow> (0xF0 + a) mod 8 = (a::nat)"
  using mod_mult_self1 [of a 30 8] by (simp add: add.commute)

lemma cont_mod: "x < 64 \<Longrightarrow> (0x80 + x) mod 64 = (x::nat)"
  using mod_mult_self1 [of x 2 64] by (simp add: add.commute)

lemma val3:
  fixes a x1 x2 :: nat
  assumes "x1 < 64" "x2 < 64"
  shows "(a * 4096 + x1 * 64 + x2) div 4096 = a"
    and "((a * 4096 + x1 * 64 + x2) div 64) mod 64 = x1"
    and "(a * 4096 + x1 * 64 + x2) mod 64 = x2"
proof -
  have lt: "x1 * 64 + x2 < 4096" using assms by simp
  have r: "a * 4096 + x1 * 64 + x2 = a * 4096 + (x1 * 64 + x2)" by simp
  have r': "a * 4096 + x1 * 64 + x2 = (a * 64 + x1) * 64 + x2" by simp
  show "(a * 4096 + x1 * 64 + x2) div 4096 = a"
    unfolding r using lt by (rule digit_div)
  have "(a * 4096 + x1 * 64 + x2) div 64 = a * 64 + x1"
    unfolding r' using assms(2) by (rule digit_div)
  then show "((a * 4096 + x1 * 64 + x2) div 64) mod 64 = x1"
    using assms(1) by (simp only: digit_mod)
  show "(a * 4096 + x1 * 64 + x2) mod 64 = x2"
    unfolding r' using assms(2) by (rule digit_mod)
qed

lemma val4:
  fixes a x1 x2 x3 :: nat
  assumes "x1 < 64" "x2 < 64" "x3 < 64"
  shows "(a * 262144 + x1 * 4096 + x2 * 64 + x3) div 262144 = a"
    and "((a * 262144 + x1 * 4096 + x2 * 64 + x3) div 4096) mod 64 = x1"
    and "((a * 262144 + x1 * 4096 + x2 * 64 + x3) div 64) mod 64 = x2"
    and "(a * 262144 + x1 * 4096 + x2 * 64 + x3) mod 64 = x3"
proof -
  let ?r = "a * 262144 + x1 * 4096 + x2 * 64 + x3"
  have lt: "x1 * 4096 + x2 * 64 + x3 < 262144" "x2 * 64 + x3 < 4096" using assms by simp_all
  have r: "?r = a * 262144 + (x1 * 4096 + x2 * 64 + x3)" by simp
  have r1: "?r = (a * 64 + x1) * 4096 + (x2 * 64 + x3)" by simp
  have r2: "?r = ((a * 64 + x1) * 64 + x2) * 64 + x3" by simp
  show "?r div 262144 = a" unfolding r using lt(1) by (rule digit_div)
  have "?r div 4096 = a * 64 + x1" unfolding r1 using lt(2) by (rule digit_div)
  then show "(?r div 4096) mod 64 = x1" using assms(1) by (simp only: digit_mod)
  have "?r div 64 = (a * 64 + x1) * 64 + x2" unfolding r2 using assms(3) by (rule digit_div)
  then show "(?r div 64) mod 64 = x2" using assms(2) by (simp only: digit_mod)
  show "?r mod 64 = x3" unfolding r2 using assms(3) by (rule digit_mod)
qed

lemma cont_split:
  assumes "utf8_cont c"
  obtains x where "(of_char c :: nat) = 0x80 + x" and "x < 64"
proof -
  from assms have "(of_char c :: nat) = 0x80 + (of_char c - 0x80)" and "of_char c - 0x80 < (64::nat)"
    by (auto simp: utf8_cont_def)
  then show ?thesis by (rule that)
qed

lemma encode_seq2:
  assumes "utf8_seq2 c0 c1"
  shows "utf8_EncodeRune ((of_char c0 mod 32) * 64 + of_char c1 mod 64) = [c0, c1]"
proof -
  obtain x where x: "(of_char c1 :: nat) = 0x80 + x" "x < 64"
    using assms cont_split [of c1] by (auto simp: utf8_seq2_def)
  have "(of_char c0 :: nat) = 0xC0 + (of_char c0 - 0xC0)" and "of_char c0 - 0xC0 < (32::nat)"
    and "2 \<le> of_char c0 - (0xC0::nat)"
    using assms by (auto simp: utf8_seq2_def)
  then obtain a where a: "(of_char c0 :: nat) = 0xC0 + a" "a < 32" "2 \<le> a" by blast
  have r: "(of_char c0 mod 32) * 64 + of_char c1 mod 64 = a * 64 + x"
    by (simp only: a x lead2_mod cont_mod)
  have c0: "c0 = char_of (0xC0 + a)" and c1: "c1 = char_of (0x80 + x)"
    using a(1) x(1) by (metis char_of_char)+
  have "\<not> a * 64 + x \<le> 0x7F" "a * 64 + x \<le> 0x7FF" using a x by simp_all
  then show ?thesis
    unfolding r by (simp add: utf8_EncodeRune_def digit_div digit_mod x(2) c0 c1)
qed

lemma encode_seq3:
  assumes "utf8_seq3 c0 c1 c2"
  shows "utf8_EncodeRune ((of_char c0 mod 16) * 4096 + (of_char c1 mod 64) * 64
           + of_char c2 mod 64) = [c0, c1, c2]"
proof -
  obtain x1 where x1: "(of_char c1 :: nat) = 0x80 + x1" "x1 < 64"
    using assms cont_split [of c1] by (auto simp: utf8_seq3_def)
  obtain x2 where x2: "(of_char c2 :: nat) = 0x80 + x2" "x2 < 64"
    using assms cont_split [of c2] by (auto simp: utf8_seq3_def)
  have "(of_char c0 :: nat) = 0xE0 + (of_char c0 - 0xE0)" and "of_char c0 - 0xE0 < (16::nat)"
    using assms by (auto simp: utf8_seq3_def)
  then obtain a where a: "(of_char c0 :: nat) = 0xE0 + a" "a < 16" by blast
  have lo: "a = 0 \<Longrightarrow> 32 \<le> x1" and hi: "a = 13 \<Longrightarrow> x1 \<le> 31"
    using assms a x1 by (auto simp: utf8_seq3_def split: if_splits)
  let ?r = "a * 4096 + x1 * 64 + x2"
  have r: "(of_char c0 mod 16) * 4096 + (of_char c1 mod 64) * 64 + of_char c2 mod 64 = ?r"
    by (simp only: a x1 x2 lead3_mod cont_mod)
  have c0: "c0 = char_of (0xE0 + a)" and c1: "c1 = char_of (0x80 + x1)"
    and c2: "c2 = char_of (0x80 + x2)"
    using a(1) x1(1) x2(1) by (metis char_of_char)+
  have b1: "\<not> ?r \<le> 0x7FF" using a x1 x2 lo by (cases "a = 0") auto
  have b2: "?r \<le> 0xFFFF" using a x1 x2 by simp
  have b3: "\<not> (0xD800 \<le> ?r \<and> ?r \<le> 0xDFFF)" using a x1 x2 hi by (cases "a = 13") auto
  have b4: "\<not> ?r \<le> 0x7F" "\<not> ?r > 0x10FFFF" using b1 b2 by simp_all
  show ?thesis
    unfolding r using b1 b2 b3 b4
    by (simp only: utf8_EncodeRune_def encode3_def val3 [OF x1(2) x2(2)] c0 c1 c2 if_False
        if_True simp_thms)
qed

lemma encode_seq4:
  assumes "utf8_seq4 c0 c1 c2 c3"
  shows "utf8_EncodeRune ((of_char c0 mod 8) * 262144 + (of_char c1 mod 64) * 4096
           + (of_char c2 mod 64) * 64 + of_char c3 mod 64) = [c0, c1, c2, c3]"
proof -
  obtain x1 where x1: "(of_char c1 :: nat) = 0x80 + x1" "x1 < 64"
    using assms cont_split [of c1] by (auto simp: utf8_seq4_def)
  obtain x2 where x2: "(of_char c2 :: nat) = 0x80 + x2" "x2 < 64"
    using assms cont_split [of c2] by (auto simp: utf8_seq4_def)
  obtain x3 where x3: "(of_char c3 :: nat) = 0x80 + x3" "x3 < 64"
    using assms cont_split [of c3] by (auto simp: utf8_seq4_def)
  have "(of_char c0 :: nat) = 0xF0 + (of_char c0 - 0xF0)" and "of_char c0 - 0xF0 < (5::nat)"
    using assms by (auto simp: utf8_seq4_def)
  then obtain a where a: "(of_char c0 :: nat) = 0xF0 + a" "a < 5" by blast
  have lo: "a = 0 \<Longrightarrow> 16 \<le> x1" and hi: "a = 4 \<Longrightarrow> x1 \<le> 15"
    using assms a x1 by (auto simp: utf8_seq4_def split: if_splits)
  let ?r = "a * 262144 + x1 * 4096 + x2 * 64 + x3"
  have a8: "a < 8" using a by simp
  have r: "(of_char c0 mod 8) * 262144 + (of_char c1 mod 64) * 4096
           + (of_char c2 mod 64) * 64 + of_char c3 mod 64 = ?r"
    by (simp only: a(1) x1 x2 x3 lead4_mod [OF a8] cont_mod)
  have c0: "c0 = char_of (0xF0 + a)" and c1: "c1 = char_of (0x80 + x1)"
    and c2: "c2 = char_of (0x80 + x2)" and c3: "c3 = char_of (0x80 + x3)"
    using a(1) x1(1) x2(1) x3(1) by (metis char_of_char)+
  have b1: "\<not> ?r \<le> 0xFFFF" using a x1 x2 x3 lo by (cases "a = 0") auto
  have b2: "\<not> ?r > 0x10FFFF" using a x1 x2 x3 hi by (cases "a = 4") auto
  have b3: "\<not> (0xD800 \<le> ?r \<and> ?r \<le> 0xDFFF)" "\<not> ?r \<le> 0x7F" "\<not> ?r \<le> 0x7FF"
    using b1 by simp_all
  show ?thesis
    unfolding r using b1 b2 b3
    by (simp only: utf8_EncodeRune_def val4 [OF x1(2) x2(2) x3(2)] c0 c1 c2 c3 if_False
        if_True simp_thms)
qed

lemma decode_seq2:
  "utf8_seq2 c0 c1 \<Longrightarrow>
   utf8_DecodeRune (c0 # c1 # t) = ((of_char c0 mod 32) * 64 + of_char c1 mod 64, 2)"
  by (simp add: utf8_DecodeRune_def utf8_first_def Let_def utf8_seq2_def utf8_cont_def)

lemma decode_seq3:
  "utf8_seq3 c0 c1 c2 \<Longrightarrow>
   utf8_DecodeRune (c0 # c1 # c2 # t)
     = ((of_char c0 mod 16) * 4096 + (of_char c1 mod 64) * 64 + of_char c2 mod 64, 3)"
  by (auto simp: utf8_DecodeRune_def utf8_first_def Let_def utf8_seq3_def utf8_cont_def split: if_splits)

lemma decode_seq4:
  "utf8_seq4 c0 c1 c2 c3 \<Longrightarrow>
   utf8_DecodeRune (c0 # c1 # c2 # c3 # t)
     = ((of_char c0 mod 8) * 262144 + (of_char c1 mod 64) * 4096
          + (of_char c2 mod 64) * 64 + of_char c3 mod 64, 4)"
  by (auto simp: utf8_DecodeRune_def utf8_first_def Let_def utf8_seq4_def utf8_cont_def split: if_splits)

lemma decode_nonempty_size:
  "utf8_DecodeRune (c # cs) = (r, n) \<Longrightarrow> 1 \<le> n"
  by (auto simp: utf8_DecodeRune_def utf8_first_def Let_def split: if_splits)

lemma decode_valid:
  assumes "utf8_DecodeRune (c # cs) = (r, n)" and "0x80 \<le> (of_char c :: nat)"
    and "\<not> (r = RuneError \<and> n = 1)"
  shows "2 \<le> n" and "n \<le> Suc (length cs)" and "utf8_EncodeRune r = take n (c # cs)"
    and "utf8_DecodeRune (take n (c # cs) @ t) = (r, n)"
    and "\<forall>b\<in>set (take n (c # cs)). 0x80 \<le> (of_char b :: nat)"
  using decode_shape [OF assms] assms(2)
  by (auto simp: encode_seq2 encode_seq3 encode_seq4 decode_seq2 decode_seq3 decode_seq4
      utf8_seq2_def utf8_seq3_def utf8_seq4_def utf8_cont_def)

lemma lt16:
  "(d::nat) < 16 \<Longrightarrow> d = 0 \<or> d = 1 \<or> d = 2 \<or> d = 3 \<or> d = 4 \<or> d = 5 \<or> d = 6 \<or> d = 7
     \<or> d = 8 \<or> d = 9 \<or> d = 10 \<or> d = 11 \<or> d = 12 \<or> d = 13 \<or> d = 14 \<or> d = 15"
  by arith

lemma hex_digit:
  assumes "d < 16"
  shows "ishex (hex d)" and "unhex (hex d) = d"
  using lt16 [OF assms] by (auto simp: hex_def ishex_def unhex_def)

lemma map_option_append_single:
  "map_option ((@) [c]) x = map_option ((#) c) x"
  by (cases x) simp_all

lemma unquote_ascii:
  assumes "(of_char c :: nat) < 0x80"
  shows "unquoteBytes ((if htmlSafeSet (of_char c) then [c] else escapeByte c) @ t)
           = map_option ((#) c) (unquoteBytes t)"
proof (cases "htmlSafeSet (of_char c)")
  case True
  then have "c \<noteq> BSL" "c \<noteq> QUO" "\<not> (of_char c :: nat) < 0x20"
    by (auto simp: htmlSafeSet_def)
  with True assms show ?thesis by simp
next
  case False
  let ?b = "of_char c :: nat"
  have d: "?b div 16 < 16" "?b mod 16 < 16" using assms by simp_all
  have b: "(?b div 16) * 16 + ?b mod 16 = ?b" by simp
  have e: "utf8_EncodeRune ?b = [c]"
    using assms by (simp add: utf8_EncodeRune_def)
  have s: "\<not> utf16_IsSurrogate ?b"
    using assms by (simp add: utf16_IsSurrogate_def)
  have z: "ishex CHR ''0''" "unhex CHR ''0'' = 0"
    by (simp_all add: ishex_def unhex_def)
  show ?thesis
    using False
    by (simp add: escapeByte_def getu4_def hex_digit [OF d(1)] hex_digit [OF d(2)] b e s z
        map_option_append_single)
qed

lemma valid_Cons_ascii:
  "(of_char c :: nat) < 0x80 \<Longrightarrow> utf8_ValidString (c # cs) = utf8_ValidString cs"
  by (simp add: utf8_DecodeRune_def RuneError_def)

lemma map_option_append_Some:
  "x = Some ys \<Longrightarrow> map_option ((@) xs) x = Some (xs @ ys)"
  by simp

lemma unquote_encode:
  "utf8_ValidString v \<Longrightarrow> unquoteBytes (encodeState_string v) = Some v"
proof (induction "length v" arbitrary: v rule: less_induct)
  case less
  show ?case
  proof (cases v)
    case Nil
    then show ?thesis by simp
  next
    case (Cons c cs)
    show ?thesis
    proof (cases "(of_char c :: nat) < 0x80")
      case True
      from less.prems have "utf8_ValidString (c # cs)"
        unfolding Cons .
      then have "utf8_ValidString cs"
        unfolding valid_Cons_ascii [OF True] .
      with less.hyps [of cs] Cons have "unquoteBytes (encodeState_string cs) = Some cs"
        by simp
      with True Cons show ?thesis
        by (simp add: unquote_ascii del: unquoteBytes.simps)
    next
      case False
      obtain r n where dec: "utf8_DecodeRune (c # cs) = (r, n)"
        by (cases "utf8_DecodeRune (c # cs)")
      from less.prems Cons dec have ok: "\<not> (r = RuneError \<and> n = 1)"
        and rest: "utf8_ValidString (drop (n - 1) cs)"
        by simp_all
      from False have hi: "0x80 \<le> (of_char c :: nat)" by simp
      note v = decode_valid [OF dec hi ok]
      have ih: "unquoteBytes (encodeState_string (drop (n - 1) cs)) = Some (drop (n - 1) cs)"
        using less.hyps [of "drop (n - 1) cs"] rest Cons by simp
      have whole: "take n (c # cs) @ drop (n - 1) cs = c # cs"
        using v(1) by (cases n) simp_all
      have tk: "take n (c # cs) = c # take (n - 1) cs"
        using v(1) by (cases n) simp_all
      have len: "length (take (n - 1) cs) = n - 1"
        using v(1,2) by simp
      have c: "c \<noteq> BSL" "c \<noteq> QUO" "\<not> (of_char c :: nat) < 0x20"
        using hi by auto
      show ?thesis
      proof (cases "r = 0x2028 \<or> r = 0x2029")
        case True
        have e: "encodeState_string (c # cs)
                   = [BSL, CHR ''u'', CHR ''2'', CHR ''0'', CHR ''2'', hex (r mod 16)]
                       @ encodeState_string (drop (n - 1) cs)"
          using False dec ok True by simp
        have g: "getu4 ([BSL, CHR ''u'', CHR ''2'', CHR ''0'', CHR ''2'', hex (r mod 16)] @ t)
                   = Some r" for t
          using True by (auto simp: getu4_def hex_def ishex_def unhex_def)
        have s: "\<not> utf16_IsSurrogate r"
          using True by (auto simp: utf16_IsSurrogate_def)
        have "unquoteBytes (encodeState_string (c # cs))
                = map_option ((@) (utf8_EncodeRune r))
                    (unquoteBytes (encodeState_string (drop (n - 1) cs)))"
          unfolding e using g [of "encodeState_string (drop (n - 1) cs)"] s by simp
        then show ?thesis
          using ih whole v(3) Cons by simp
      next
        case other: False
        have e: "encodeState_string (c # cs)
                   = c # (take (n - 1) cs @ encodeState_string (drop (n - 1) cs))"
          using False dec ok other tk by simp
        have d: "utf8_DecodeRune (c # (take (n - 1) cs @ encodeState_string (drop (n - 1) cs)))
                   = (r, n)"
          using v(4) [of "encodeState_string (drop (n - 1) cs)"] tk by simp
        have "unquoteBytes (encodeState_string (c # cs))
                = map_option ((@) (utf8_EncodeRune r))
                    (unquoteBytes (encodeState_string (drop (n - 1) cs)))"
          unfolding e using c False d len by simp
        then show ?thesis
          using ih whole v(3) Cons by simp
      qed
    qed
  qed
qed

lemma scan_plain:
  "\<forall>b\<in>set bs. 0x80 \<le> (of_char b :: nat) \<Longrightarrow> scanString InString t = Some k \<Longrightarrow>
   scanString InString (bs @ t) = Some (length bs + k)"
proof (induction bs)
  case Nil
  then show ?case by simp
next
  case (Cons b bs)
  then have "b \<noteq> QUO" "b \<noteq> BSL" "\<not> (of_char b :: nat) < 0x20"
    by auto
  with Cons show ?case
    by simp
qed

lemma scan_ascii:
  assumes "(of_char c :: nat) < 0x80" and "scanString InString t = Some k"
  shows "scanString InString ((if htmlSafeSet (of_char c) then [c] else escapeByte c) @ t)
           = Some (length (if htmlSafeSet (of_char c) then [c] else escapeByte c) + k)"
proof (cases "htmlSafeSet (of_char c)")
  case True
  then have "c \<noteq> BSL" "c \<noteq> QUO" "\<not> (of_char c :: nat) < 0x20"
    by (auto simp: htmlSafeSet_def)
  with True assms(2) show ?thesis by simp
next
  case False
  let ?b = "of_char c :: nat"
  have d: "?b div 16 < 16" "?b mod 16 < 16" using assms by simp_all
  have z: "ishex CHR ''0''"
    by (simp add: ishex_def)
  show ?thesis
    using False assms(2)
    by (simp add: escapeByte_def hex_digit [OF d(1)] hex_digit [OF d(2)] z)
qed

lemma scan_encode:
  "scanString InString (encodeState_string v @ QUO # rest)
     = Some (length (encodeState_string v))"
proof (induction "length v" arbitrary: v rule: less_induct)
  case less
  show ?case
  proof (cases v)
    case Nil
    then show ?thesis by simp
  next
    case (Cons c cs)
    show ?thesis
    proof (cases "(of_char c :: nat) < 0x80")
      case True
      have "scanString InString (encodeState_string cs @ QUO # rest)
              = Some (length (encodeState_string cs))"
        using less [of cs] Cons by simp
      from scan_ascii [OF True this] True Cons show ?thesis
        by (simp del: scanString.simps)
    next
      case False
      obtain r n where dec: "utf8_DecodeRune (c # cs) = (r, n)"
        by (cases "utf8_DecodeRune (c # cs)")
      from False have hi: "0x80 \<le> (of_char c :: nat)" by simp
      have ih: "scanString InString (encodeState_string (drop (n - 1) cs) @ QUO # rest)
                  = Some (length (encodeState_string (drop (n - 1) cs)))"
        using less [of "drop (n - 1) cs"] Cons by simp
      have ih0: "scanString InString (encodeState_string cs @ QUO # rest)
                  = Some (length (encodeState_string cs))"
        using less [of cs] Cons by simp
      have f: "ishex CHR ''f''" "ishex CHR ''d''" "ishex CHR ''2''" "ishex CHR ''0''"
        by (simp_all add: ishex_def)
      show ?thesis
      proof (cases "r = RuneError \<and> n = 1")
        case True
        have e: "encodeState_string (c # cs)
                   = [BSL, CHR ''u'', CHR ''f'', CHR ''f'', CHR ''f'', CHR ''d'']
                       @ encodeState_string cs"
          using False dec True by simp
        show ?thesis
          unfolding Cons e using ih0 f by simp
      next
        case ok: False
        note v = decode_valid [OF dec hi ok]
        show ?thesis
        proof (cases "r = 0x2028 \<or> r = 0x2029")
          case True
          then have h: "ishex (hex (r mod 16))"
            by (auto simp: hex_def ishex_def)
          have e: "encodeState_string (c # cs)
                     = [BSL, CHR ''u'', CHR ''2'', CHR ''0'', CHR ''2'', hex (r mod 16)]
                         @ encodeState_string (drop (n - 1) cs)"
            using False dec ok True by simp
          show ?thesis
            unfolding Cons e using ih f h by simp
        next
          case other: False
          have e: "encodeState_string (c # cs)
                     = take n (c # cs) @ encodeState_string (drop (n - 1) cs)"
            using False dec ok other by simp
          show ?thesis
            unfolding Cons e using scan_plain [OF v(5) ih] by simp
        qed
      qed
    qed
  qed
qed

lemma stringLiteral_json_string:
  assumes "utf8_ValidString v"
  shows "stringLiteral (json_string v @ rest) = Some (v, length (json_string v))"
  using scan_encode [of v rest] unquote_encode [OF assms]
  by (simp add: stringLiteral_def json_string_def)

lemma mapElem_json_string:
  assumes "utf8_ValidString v"
  shows "mapElem (json_string v @ rest) = Some (v, length (json_string v))"
proof -
  have "take 4 (json_string v @ rest) \<noteq> ''null''"
    by (simp add: json_string_def)
  then show ?thesis
    by (simp add: mapElem_def stringLiteral_json_string [OF assms])
qed

lemma skipSpace_json_string [simp]: "skipSpace (json_string v @ rest) = json_string v @ rest"
  by (simp add: skipSpace_def json_string_def isSpace_def)

lemma skipSpace_punct [simp]:
  "skipSpace (CHR '':'' # t) = CHR '':'' # t"
  "skipSpace (CHR '','' # t) = CHR '','' # t"
  "skipSpace (CHR ''}'' # t) = CHR ''}'' # t"
  "skipSpace [] = []"
  by (simp_all add: skipSpace_def isSpace_def)

lemma object_members_more:
  assumes "utf8_ValidString k" and "utf8_ValidString v"
  shows "object_members m (json_string k @ '':'' @ json_string v @ '','' @ rest)
           = object_members (m(k \<mapsto> v)) (skipSpace rest)"
  by (subst object_members.simps)
    (simp add: stringLiteral_json_string [OF assms(1)] mapElem_json_string [OF assms(2)])

lemma object_members_last:
  assumes "utf8_ValidString k" and "utf8_ValidString v"
  shows "object_members m (json_string k @ '':'' @ json_string v @ ''}'') = Some (m(k \<mapsto> v))"
  by (subst object_members.simps)
    (simp add: stringLiteral_json_string [OF assms(1)] mapElem_json_string [OF assms(2)])

lemma unmarshal_object:
  "json_Unmarshal (''{'' @ json_string k @ rest) = object_members Map.empty (json_string k @ rest)"
  by (simp add: json_Unmarshal_def skipSpace_def isSpace_def json_string_def)

lemma valid_keys:
  "utf8_ValidString ''claims''" "utf8_ValidString ''client_id''"
  "utf8_ValidString ''redirect_uri''" "utf8_ValidString ''response_type''"
  "utf8_ValidString ''scope''" "utf8_ValidString ''state''"
  by (simp_all add: valid_Cons_ascii del: utf8_ValidString.simps(2))

lemma authRequest_roundtrip:
  assumes "utf8_ValidString claims" and "utf8_ValidString scope" and "utf8_ValidString state"
    and "utf8_ValidString responseType" and "utf8_ValidString clientID"
    and "utf8_ValidString redirectURI"
  shows "json_Unmarshal (json_Marshal_strings
           [(''claims'', claims), (''scope'', scope), (''state'', state),
            (''response_type'', responseType), (''client_id'', clientID),
            (''redirect_uri'', redirectURI)])
         = Some [''claims'' \<mapsto> claims, ''client_id'' \<mapsto> clientID,
                 ''redirect_uri'' \<mapsto> redirectURI, ''response_type'' \<mapsto> responseType,
                 ''scope'' \<mapsto> scope, ''state'' \<mapsto> state]"
proof -
  have m: "json_Marshal_strings
           [(''claims'', claims), (''scope'', scope), (''state'', state),
            (''response_type'', responseType), (''client_id'', clientID),
            (''redirect_uri'', redirectURI)]
         = ''{'' @ json_string ''claims'' @ '':'' @ json_string claims @ '','' @
             (json_string ''client_id'' @ '':'' @ json_string clientID @ '','' @
              (json_string ''redirect_uri'' @ '':'' @ json_string redirectURI @ '','' @
               (json_string ''response_type'' @ '':'' @ json_string responseType @ '','' @
                (json_string ''scope'' @ '':'' @ json_string scope @ '','' @
                 (json_string ''state'' @ '':'' @ json_string state @ ''}'')))))"
    by (simp add: json_Marshal_strings_def json_Marshal_def)
  show ?thesis
    unfolding m unmarshal_object
    by (simp only: object_members_more object_members_last valid_keys assms
        skipSpace_json_string)
qed

subsection \<open>The stored authorization request\<close>

lemma authorize_ok:
  assumes "\<not> parseErr r"
    and "url_PathUnescape (FormValue r ''claims'') = Some claims"
    and "url_PathUnescape (FormValue r ''redirect_uri'') = Some redirectURI"
    and "claims \<noteq> []" and "redirectURI \<noteq> []"
    and "FormValue r ''client_id'' \<noteq> []" and "FormValue r ''state'' \<noteq> []"
    and "\<not> put_err st (getAuthStateKeyPrefix authState)"
  shows "oidcAuthorize now authState st r =
           (http_Redirect oidcIssuanceLogin StatusFound
              (http_SetCookie \<lparr>Name = ''state'', Value = authState,
                                Expires = now + 5 * 60, Path = ''/''\<rparr> newResponse),
            st\<lparr>kv := (kv st)(getAuthStateKeyPrefix authState \<mapsto>
                      json_Marshal_strings
                        [(''claims'', claims),
                         (''scope'', FormValue r ''scope''),
                         (''state'', FormValue r ''state''),
                         (''response_type'', FormValue r ''response_type''),
                         (''client_id'', FormValue r ''client_id''),
                         (''redirect_uri'', redirectURI)]),
               ops := ops st @ [Put (getAuthStateKeyPrefix authState)
                      (json_Marshal_strings
                        [(''claims'', claims),
                         (''scope'', FormValue r ''scope''),
                         (''state'', FormValue r ''state''),
                         (''response_type'', FormValue r ''response_type''),
                         (''client_id'', FormValue r ''client_id''),
                         (''redirect_uri'', redirectURI)])]\<rparr>)"
  using assms
  by (simp add: oidcAuthorize_def Let_def store_Put_def)

lemma code_redirect_cookie:
  "code (http_Redirect url c (http_SetCookie ck newResponse)) = Some c"
  by (simp add: http_Redirect_def WriteHeader_def http_SetCookie_def newResponse_def)

text \<open>
  What \<^verbatim>\<open>oidcAuthorize\<close> stores, in terms of the two strings that
  \<^verbatim>\<open>url.PathUnescape\<close> returns to it.
\<close>

lemma authorize_stores_unescaped:
  assumes "\<not> parseErr r"
    and "url_PathUnescape (FormValue r ''claims'') = Some claims"
    and "url_PathUnescape (FormValue r ''redirect_uri'') = Some redirectURI"
    and "claims \<noteq> []" and "redirectURI \<noteq> []"
    and "FormValue r ''client_id'' \<noteq> []" and "FormValue r ''state'' \<noteq> []"
    and "\<not> put_err st (getAuthStateKeyPrefix authState)"
    and "utf8_ValidString claims" and "utf8_ValidString (FormValue r ''scope'')"
    and "utf8_ValidString (FormValue r ''state'')"
    and "utf8_ValidString (FormValue r ''response_type'')"
    and "utf8_ValidString (FormValue r ''client_id'')"
    and "utf8_ValidString redirectURI"
    and "reqCookies r' ''state'' = Some authState"
    and "\<not> put_err st (getAuthCodeKeyPrefix authCode)"
  shows "code (fst (oidcAuthorize now authState st r)) = Some 302
       \<and> storedAuthRequest (snd (oidcAuthorize now authState st r)) authState
           = Some [''claims'' \<mapsto> claims, ''client_id'' \<mapsto> FormValue r ''client_id'',
                   ''redirect_uri'' \<mapsto> redirectURI,
                   ''response_type'' \<mapsto> FormValue r ''response_type'',
                   ''scope'' \<mapsto> FormValue r ''scope'', ''state'' \<mapsto> FormValue r ''state'']
       \<and> redirect (fst (oidcSendAuthorizeResponse authCode
                           (snd (oidcAuthorize now authState st r)) r'))
           = Some (redirectURI @ ''?code='' @ authCode @ ''&state='' @ FormValue r ''state'')"
proof -
  let ?m = "[''claims'' \<mapsto> claims, ''client_id'' \<mapsto> FormValue r ''client_id'',
             ''redirect_uri'' \<mapsto> redirectURI,
             ''response_type'' \<mapsto> FormValue r ''response_type'',
             ''scope'' \<mapsto> FormValue r ''scope'', ''state'' \<mapsto> FormValue r ''state'']"
  let ?bytes = "json_Marshal_strings
                        [(''claims'', claims),
                         (''scope'', FormValue r ''scope''),
                         (''state'', FormValue r ''state''),
                         (''response_type'', FormValue r ''response_type''),
                         (''client_id'', FormValue r ''client_id''),
                         (''redirect_uri'', redirectURI)]"
  let ?st = "snd (oidcAuthorize now authState st r)"
  note a = authorize_ok [OF assms(1-8), of now]
  have rt: "json_Unmarshal ?bytes = Some ?m"
    by (rule authRequest_roundtrip [OF assms(9-14)])
  have k: "kv ?st (getAuthStateKeyPrefix authState) = Some ?bytes"
    by (simp add: a)
  have p: "\<not> put_err ?st (getAuthCodeKeyPrefix authCode)"
    using assms(16) by (simp add: a)
  have 1: "code (fst (oidcAuthorize now authState st r)) = Some 302"
    by (simp add: a code_redirect_cookie)
  have 2: "storedAuthRequest ?st authState = Some ?m"
    by (simp add: storedAuthRequest_def k rt)
  have "?m ''redirect_uri'' = Some redirectURI" and "?m ''state'' = Some (FormValue r ''state'')"
    by simp_all
  from sendAuthorizeResponse_ok [OF assms(15) k rt this p]
  have 3: "redirect (fst (oidcSendAuthorizeResponse authCode ?st r'))
           = Some (redirectURI @ ''?code='' @ authCode @ ''&state='' @ FormValue r ''state'')"
    by (simp add: redirect_http_Redirect)
  from 1 2 3 show ?thesis by simp
qed

lemma encode_RuneError: "utf8_EncodeRune RuneError = [CHR 0xEF, CHR 0xBF, CHR 0xBD]"
  by (simp add: utf8_EncodeRune_def encode3_def RuneError_def char_of_eq_iff)

lemma url_PathUnescape_no_percent:
  "CHR ''%'' \<notin> set s \<Longrightarrow> url_PathUnescape s = Some s"
  by (induction s) auto

text \<open>
  C6, amended. Take an authorize request that is accepted (the form parses, the four
  required parameters are non-empty, the store accepts the write), whose six values are
  valid UTF-8 and whose \<^verbatim>\<open>claims\<close> and \<^verbatim>\<open>redirect_uri\<close> hold no percent sign. Then it
  is answered with 302, and the record stored under \<^verbatim>\<open>authstate_{authState}\<close> unmarshals
  to exactly the six fields, each with the value the request supplied.
  \<^verbatim>\<open>oidcSendAuthorizeResponse\<close>, called with the cookie of that state, reads this
  record: it redirects to the redirect URI with the new code and the \<^verbatim>\<open>state\<close> of the
  request.
\<close>

theorem authorize_record_roundtrip:
  assumes "\<not> parseErr r"
    and "CHR ''%'' \<notin> set (FormValue r ''claims'')"
    and "CHR ''%'' \<notin> set (FormValue r ''redirect_uri'')"
    and "FormValue r ''claims'' \<noteq> []" and "FormValue r ''redirect_uri'' \<noteq> []"
    and "FormValue r ''client_id'' \<noteq> []" and "FormValue r ''state'' \<noteq> []"
    and "\<not> put_err st (getAuthStateKeyPrefix authState)"
    and "utf8_ValidString (FormValue r ''claims'')"
    and "utf8_ValidString (FormValue r ''scope'')"
    and "utf8_ValidString (FormValue r ''state'')"
    and "utf8_ValidString (FormValue r ''response_type'')"
    and "utf8_ValidString (FormValue r ''client_id'')"
    and "utf8_ValidString (FormValue r ''redirect_uri'')"
    and "reqCookies r' ''state'' = Some authState"
    and "\<not> put_err st (getAuthCodeKeyPrefix authCode)"
  shows "code (fst (oidcAuthorize now authState st r)) = Some 302
       \<and> storedAuthRequest (snd (oidcAuthorize now authState st r)) authState
           = Some [''claims'' \<mapsto> FormValue r ''claims'',
                   ''client_id'' \<mapsto> FormValue r ''client_id'',
                   ''redirect_uri'' \<mapsto> FormValue r ''redirect_uri'',
                   ''response_type'' \<mapsto> FormValue r ''response_type'',
                   ''scope'' \<mapsto> FormValue r ''scope'', ''state'' \<mapsto> FormValue r ''state'']
       \<and> redirect (fst (oidcSendAuthorizeResponse authCode
                           (snd (oidcAuthorize now authState st r)) r'))
           = Some (FormValue r ''redirect_uri'' @ ''?code='' @ authCode @ ''&state=''
                     @ FormValue r ''state'')"
  by (rule authorize_stores_unescaped
        [OF assms(1) url_PathUnescape_no_percent [OF assms(2)]
            url_PathUnescape_no_percent [OF assms(3)] assms(4-16)])

text \<open>
  C6 as stated fails, on two accepted requests. With \<^verbatim>\<open>state=%ff\<close> the stored record
  does not give the byte \<open>0xFF\<close> back: \<^verbatim>\<open>json.Marshal\<close> wrote the escape of U+FFFD
  for it, and the \<^verbatim>\<open>state\<close> loaded from the store is the three bytes of U+FFFD. With
  the form value \<^verbatim>\<open>%41\<close> for \<^verbatim>\<open>claims\<close>, all six values valid UTF-8, the stored
  \<^verbatim>\<open>claims\<close> is \<^verbatim>\<open>A\<close>: the handler unescapes the parsed form value once more.
\<close>

theorem authorize_record_counterexample:
  "code (fst (oidcAuthorize 0 ''s1'' emptyStore authorizeInvalidUTF8)) = Some 302
   \<and> FormValue authorizeInvalidUTF8 ''state'' = [CHR 0xFF]
   \<and> storedField (snd (oidcAuthorize 0 ''s1'' emptyStore authorizeInvalidUTF8)) ''s1'' ''state''
       = Some [CHR 0xEF, CHR 0xBF, CHR 0xBD]
   \<and> code (fst (oidcAuthorize 0 ''s1'' emptyStore authorizePercent)) = Some 302
   \<and> FormValue authorizePercent ''claims'' = ''%41''
   \<and> utf8_ValidString (FormValue authorizePercent ''claims'')
   \<and> storedField (snd (oidcAuthorize 0 ''s1'' emptyStore authorizePercent)) ''s1'' ''claims''
       = Some ''A''"
proof -
  let ?r = authorizeInvalidUTF8
  have f: "FormValue ?r ''claims'' = ''{}''"
    "FormValue ?r ''redirect_uri'' = ''https://wallet.example/cb''"
    "FormValue ?r ''client_id'' = ''wallet''" "FormValue ?r ''state'' = [CHR 0xFF]"
    "FormValue ?r ''scope'' = []" "FormValue ?r ''response_type'' = []"
    by (simp_all add: authorizeInvalidUTF8_def example_defs)
  have 1: "\<not> parseErr ?r" by (simp add: authorizeInvalidUTF8_def emptyRequest_def)
  have 2: "url_PathUnescape (FormValue ?r ''claims'') = Some ''{}''"
    and 3: "url_PathUnescape (FormValue ?r ''redirect_uri'') = Some ''https://wallet.example/cb''"
    by (simp_all add: f)
  have 8: "\<not> put_err emptyStore (getAuthStateKeyPrefix ''s1'')"
    by (simp add: emptyStore_def)
  note a = authorize_ok [OF 1 2 3 _ _ _ _ 8, of 0, simplified f, simplified]
  have b: "json_Unmarshal (json_Marshal_strings
             [(''claims'', ''{}''), (''scope'', []), (''state'', [CHR 0xFF]),
              (''response_type'', []), (''client_id'', ''wallet''),
              (''redirect_uri'', ''https://wallet.example/cb'')])
           = Some [''claims'' \<mapsto> ''{}'', ''client_id'' \<mapsto> ''wallet'',
                   ''redirect_uri'' \<mapsto> ''https://wallet.example/cb'',
                   ''response_type'' \<mapsto> [], ''scope'' \<mapsto> [],
                   ''state'' \<mapsto> [CHR 0xEF, CHR 0xBF, CHR 0xBD]]"
    by (simp add: json_Marshal_strings_def json_Marshal_def json_string_def
      htmlSafeSet_def escapeByte_def json_Unmarshal_def skipSpace_def isSpace_def
      object_members.simps stringLiteral_def mapElem_def utf8_DecodeRune_def utf8_first_def
      getu4_def ishex_def unhex_def utf16_IsSurrogate_def encode_RuneError [unfolded RuneError_def]
      RuneError_def)
  have first: "code (fst (oidcAuthorize 0 ''s1'' emptyStore ?r)) = Some 302
     \<and> FormValue ?r ''state'' = [CHR 0xFF]
     \<and> storedField (snd (oidcAuthorize 0 ''s1'' emptyStore ?r)) ''s1'' ''state''
         = Some [CHR 0xEF, CHR 0xBF, CHR 0xBD]"
    by (simp add: a f code_redirect_cookie storedField_def storedAuthRequest_def b)
  let ?q = authorizePercent
  have g: "FormValue ?q ''claims'' = ''%41''"
    "FormValue ?q ''redirect_uri'' = ''https://wallet.example/cb''"
    "FormValue ?q ''client_id'' = ''wallet''" "FormValue ?q ''state'' = ''xyz''"
    "FormValue ?q ''scope'' = ''openid''" "FormValue ?q ''response_type'' = ''code''"
    by (simp_all add: authorizePercent_def example_defs)
  have q1: "\<not> parseErr ?q" by (simp add: authorizePercent_def emptyRequest_def)
  have q2: "url_PathUnescape (FormValue ?q ''claims'') = Some ''A''"
    by (simp add: g ishex_def unhex_def char_of_eq_iff)
  have q3: "url_PathUnescape (FormValue ?q ''redirect_uri'') = Some ''https://wallet.example/cb''"
    by (simp add: g)
  have q4: "''A'' \<noteq> []" and q5: "''https://wallet.example/cb'' \<noteq> []"
    and q6: "FormValue ?q ''client_id'' \<noteq> []" and q7: "FormValue ?q ''state'' \<noteq> []"
    by (simp_all add: g)
  have q16: "\<not> put_err emptyStore (getAuthCodeKeyPrefix ''c1'')"
    by (simp add: emptyStore_def)
  have q9: "utf8_ValidString ''A''" and q14: "utf8_ValidString ''https://wallet.example/cb''"
    and q10: "utf8_ValidString (FormValue ?q ''scope'')"
    and q11: "utf8_ValidString (FormValue ?q ''state'')"
    and q12: "utf8_ValidString (FormValue ?q ''response_type'')"
    and q13: "utf8_ValidString (FormValue ?q ''client_id'')"
    and qv: "utf8_ValidString (FormValue ?q ''claims'')"
    by (simp_all add: g valid_Cons_ascii del: utf8_ValidString.simps(2))
  have q15: "reqCookies cookieRequest ''state'' = Some ''s1''"
    by (simp add: cookieRequest_def emptyRequest_def)
  from authorize_stores_unescaped
         [OF q1 q2 q3 q4 q5 q6 q7 8 q9 q10 q11 q12 q13 q14 q15 q16, of 0]
  have second: "code (fst (oidcAuthorize 0 ''s1'' emptyStore ?q)) = Some 302
     \<and> storedField (snd (oidcAuthorize 0 ''s1'' emptyStore ?q)) ''s1'' ''claims'' = Some ''A''"
    by (simp add: storedField_def)
  from first second g(1) qv show ?thesis by simp
qed

theorem authorize_record_roundtrip_witness:
  "\<not> parseErr authorizeRequest
   \<and> CHR ''%'' \<notin> set (FormValue authorizeRequest ''claims'')
   \<and> CHR ''%'' \<notin> set (FormValue authorizeRequest ''redirect_uri'')
   \<and> utf8_ValidString (FormValue authorizeRequest ''claims'')
   \<and> utf8_ValidString (FormValue authorizeRequest ''redirect_uri'')
   \<and> utf8_ValidString (FormValue authorizeRequest ''state'')
   \<and> reqCookies cookieRequest ''state'' = Some ''s1''
   \<and> code (fst (oidcAuthorize 0 ''s1'' emptyStore authorizeRequest)) = Some 302
   \<and> storedAuthRequest (snd (oidcAuthorize 0 ''s1'' emptyStore authorizeRequest)) ''s1''
       = Some [''claims'' \<mapsto> ''{}'', ''client_id'' \<mapsto> ''wallet'',
               ''redirect_uri'' \<mapsto> ''https://wallet.example/cb'',
               ''response_type'' \<mapsto> ''code'', ''scope'' \<mapsto> ''openid'', ''state'' \<mapsto> ''xyz'']
   \<and> redirect (fst (oidcSendAuthorizeResponse ''c1''
                       (snd (oidcAuthorize 0 ''s1'' emptyStore authorizeRequest)) cookieRequest))
       = Some ''https://wallet.example/cb?code=c1&state=xyz''"
proof -
  let ?r = authorizeRequest
  have f: "FormValue ?r ''claims'' = ''{}''"
    "FormValue ?r ''redirect_uri'' = ''https://wallet.example/cb''"
    "FormValue ?r ''client_id'' = ''wallet''" "FormValue ?r ''state'' = ''xyz''"
    "FormValue ?r ''scope'' = ''openid''" "FormValue ?r ''response_type'' = ''code''"
    by (simp_all add: authorizeRequest_def example_defs)
  have 1: "\<not> parseErr ?r" by (simp add: authorizeRequest_def emptyRequest_def)
  have 2: "CHR ''%'' \<notin> set (FormValue ?r ''claims'')"
    and 3: "CHR ''%'' \<notin> set (FormValue ?r ''redirect_uri'')"
    by (simp_all add: f)
  have 4: "FormValue ?r ''claims'' \<noteq> []" and 5: "FormValue ?r ''redirect_uri'' \<noteq> []"
    and 6: "FormValue ?r ''client_id'' \<noteq> []" and 7: "FormValue ?r ''state'' \<noteq> []"
    by (simp_all add: f)
  have 8: "\<not> put_err emptyStore (getAuthStateKeyPrefix ''s1'')"
    and 16: "\<not> put_err emptyStore (getAuthCodeKeyPrefix ''c1'')"
    by (simp_all add: emptyStore_def)
  have 9: "utf8_ValidString (FormValue ?r ''claims'')"
    and 14: "utf8_ValidString (FormValue ?r ''redirect_uri'')"
    and 10: "utf8_ValidString (FormValue ?r ''scope'')"
    and 11: "utf8_ValidString (FormValue ?r ''state'')"
    and 12: "utf8_ValidString (FormValue ?r ''response_type'')"
    and 13: "utf8_ValidString (FormValue ?r ''client_id'')"
    by (simp_all add: f valid_Cons_ascii del: utf8_ValidString.simps(2))
  have 15: "reqCookies cookieRequest ''state'' = Some ''s1''"
    by (simp add: cookieRequest_def emptyRequest_def)
  from authorize_record_roundtrip [OF 1 2 3 4 5 6 7 8 9 10 11 12 13 14 15 16, of 0]
    1 2 3 9 14 11 15
  show ?thesis by (simp add: f)
qed

end
